theory Spec2Isabelle
  imports Complex_Main
begin

section \<open>Hunter profile state (store/slices/hunterSlice.ts)\<close>

text \<open>
  The Redux slice keeps one optional hunter profile. JavaScript numbers that count
  things (level, experience, treasures, streaks) are modelled as unbounded integers;
  ISO time stamps are strings handed to the reducer by its caller, since
  \<^verbatim>\<open>new Date().toISOString()\<close> reads the clock. The fields \<^verbatim>\<open>email\<close>, \<^verbatim>\<open>avatar\<close>,
  \<^verbatim>\<open>achievements\<close> and \<^verbatim>\<open>preferences\<close> are neither read nor written by the reducers
  modelled here and are left out.
\<close>

datatype Rank = Beginner | Explorer | Adventurer | Expert | MasterHunter

record HunterStats =
  totalDistance :: int
  treasuresFoundToday :: int
  treasuresFoundThisWeek :: int
  treasuresFoundThisMonth :: int
  averageHuntTime :: int
  successRate :: int

record HunterProfile =
  hunterId :: string
  username :: string
  rank :: Rank
  level :: int
  experience :: int
  experienceToNext :: int
  totalTreasuresFound :: int
  currentStreak :: int
  longestStreak :: int
  joinedAt :: string
  lastActiveAt :: string
  stats :: HunterStats

record HunterState =
  profile :: "HunterProfile option"
  isLoading :: bool
  lastError :: "string option"

text \<open>The rank chosen inside the level-up loop of \<^verbatim>\<open>addExperience\<close>.\<close>

definition rankForLevel :: "int \<Rightarrow> Rank" where
  "rankForLevel l =
     (if l \<ge> 20 then MasterHunter
      else if l \<ge> 15 then Expert
      else if l \<ge> 10 then Adventurer
      else if l \<ge> 5 then Explorer
      else Beginner)"

text \<open>One iteration of the body of the \<^verbatim>\<open>while\<close> loop of \<^verbatim>\<open>addExperience\<close>.\<close>

definition levelUpOnce :: "HunterProfile \<Rightarrow> HunterProfile" where
  "levelUpOnce p =
     (let p1 = p\<lparr>experience := experience p - experienceToNext p\<rparr>;
          p2 = p1\<lparr>level := level p1 + 1\<rparr>;
          p3 = p2\<lparr>experienceToNext := level p2 * 100\<rparr>
      in p3\<lparr>rank := rankForLevel (level p3)\<rparr>)"

text \<open>
  The loop \<^verbatim>\<open>while (experience >= experienceToNext) { ... }\<close>. It terminates on every
  profile: after one iteration \<^verbatim>\<open>experienceToNext\<close> is \<^verbatim>\<open>level * 100\<close>; while the level
  is not positive the level grows, and once it is positive the experience shrinks by at
  least 100 in each round.
\<close>

function levelUpLoop :: "HunterProfile \<Rightarrow> HunterProfile" where
  "levelUpLoop p =
     (if experience p \<ge> experienceToNext p then levelUpLoop (levelUpOnce p) else p)"
  by pat_completeness auto
termination
  by (relation "measures
        [\<lambda>p. if experienceToNext p = level p * 100 then 0 else 1,
         \<lambda>p. nat (1 - level p),
         \<lambda>p. nat (experience p)]")
     (auto simp: levelUpOnce_def Let_def)

declare levelUpLoop.simps [simp del]

definition addExperience :: "int \<Rightarrow> HunterState \<Rightarrow> HunterState" where
  "addExperience amount s =
     (case profile s of
        None \<Rightarrow> s
      | Some p \<Rightarrow> s\<lparr>profile := Some (levelUpLoop (p\<lparr>experience := experience p + amount\<rparr>))\<rparr>)"

text \<open>
  \<^verbatim>\<open>incrementTreasuresFound\<close>: the argument \<open>now\<close> is the value of
  \<^verbatim>\<open>new Date().toISOString()\<close> at the time of the dispatch.
\<close>

definition incrementTreasuresFound :: "string \<Rightarrow> HunterState \<Rightarrow> HunterState" where
  "incrementTreasuresFound now s =
     (case profile s of
        None \<Rightarrow> s
      | Some p \<Rightarrow>
          (let p1 = p\<lparr>totalTreasuresFound := totalTreasuresFound p + 1\<rparr>;
               p2 = p1\<lparr>currentStreak := currentStreak p1 + 1\<rparr>;
               p3 = p2\<lparr>stats := (stats p2)\<lparr>treasuresFoundToday := treasuresFoundToday (stats p2) + 1\<rparr>\<rparr>;
               p4 = p3\<lparr>stats := (stats p3)\<lparr>treasuresFoundThisWeek := treasuresFoundThisWeek (stats p3) + 1\<rparr>\<rparr>;
               p5 = p4\<lparr>stats := (stats p4)\<lparr>treasuresFoundThisMonth := treasuresFoundThisMonth (stats p4) + 1\<rparr>\<rparr>;
               p6 = (if currentStreak p5 > longestStreak p5
                     then p5\<lparr>longestStreak := currentStreak p5\<rparr> else p5)
           in s\<lparr>profile := Some (p6\<lparr>lastActiveAt := now\<rparr>)\<rparr>))"

definition resetStreak :: "HunterState \<Rightarrow> HunterState" where
  "resetStreak s =
     (case profile s of
        None \<Rightarrow> s
      | Some p \<Rightarrow> s\<lparr>profile := Some (p\<lparr>currentStreak := 0\<rparr>)\<rparr>)"

section \<open>Strings\<close>

text \<open>
  JavaScript strings are modelled as lists of 8-bit characters: the UTF-8 encoding of
  the text. \<^verbatim>\<open>String.prototype.includes\<close> with an ASCII needle gives the same answer on
  the UTF-8 encoding as on the UTF-16 code units. \<^verbatim>\<open>toLowerCase\<close> is modelled on the
  ASCII letters, which is all the rank names use.
\<close>

fun startsWith :: "string \<Rightarrow> string \<Rightarrow> bool" where
  "startsWith s [] = True"
| "startsWith [] (c # t) = False"
| "startsWith (x # s) (c # t) = (x = c \<and> startsWith s t)"

fun includes_str :: "string \<Rightarrow> string \<Rightarrow> bool" where
  "includes_str [] t = (t = [])"
| "includes_str (x # s) t = (startsWith (x # s) t \<or> includes_str s t)"

definition toLowerCaseChar :: "char \<Rightarrow> char" where
  "toLowerCaseChar c =
     (let n = (of_char c :: nat) in if 65 \<le> n \<and> n \<le> 90 then char_of (n + 32) else c)"

definition toLowerCase :: "string \<Rightarrow> string" where
  "toLowerCase s = map toLowerCaseChar s"

section \<open>Rank requirements (hooks/useProfile.ts)\<close>

record RankRequirement =
  nextRank :: string
  treasuresNeeded :: int

definition getNextRankRequirement :: "string \<Rightarrow> int \<Rightarrow> RankRequirement" where
  "getNextRankRequirement rankName currentTreasures =
     (let r = toLowerCase rankName in
      if r = ''beginner'' then
        \<lparr>nextRank = ''Explorer'', treasuresNeeded = max 0 (5 - currentTreasures)\<rparr>
      else if r = ''explorer'' then
        \<lparr>nextRank = ''Hunter'', treasuresNeeded = max 0 (20 - currentTreasures)\<rparr>
      else if r = ''hunter'' then
        \<lparr>nextRank = ''Master'', treasuresNeeded = max 0 (50 - currentTreasures)\<rparr>
      else if r = ''master'' then
        \<lparr>nextRank = ''Max Level'', treasuresNeeded = 0\<rparr>
      else
        \<lparr>nextRank = ''Explorer'', treasuresNeeded = 5\<rparr>)"

section \<open>Distance and the proximity gate\<close>








section \<open>Ledger service (services/SuiService.ts)\<close>

text \<open>
  The service holds a key pair and two cached object ids, talks to a Sui full node and
  keeps a few keys in \<^verbatim>\<open>AsyncStorage\<close>. The node, the key store, the clock and
  \<^verbatim>\<open>Math.random\<close> are outside the program: their answers are collected in a record
  \<open>Rpc\<close> that every operation receives. Every \<^verbatim>\<open>throw\<close> is a value \<open>Inl e\<close>, where \<open>e\<close> is the thrown error: an
  \<^verbatim>\<open>Error\<close> made by the program, or a \<^verbatim>\<open>SyntaxError\<close> or \<^verbatim>\<open>TypeError\<close> of the language.
  Each transaction handed to \<^verbatim>\<open>signAndExecuteTransaction\<close> is appended to \<open>submitted\<close>, so
  that what reached the ledger can be read off the final state.
\<close>

datatype thrown =
    Error (message: string)
  | SyntaxError (message: string)
  | TypeError (message: string)

record ObjectChange =
  changeType :: string
  objectType :: "string option"
  objectId :: "string option"

record TxResult =
  digest :: string
  effectsStatus :: "string option"
  effectsError :: "string option"
  objectChanges :: "ObjectChange list option"
  events :: "string list option"
  checkpoint :: "string option"

record Transaction =
  sender :: string
  gasBudget :: nat
  target :: string
  arguments :: "string list"

record TreasureData =
  td_treasureId :: string
  td_name :: string
  td_description :: string
  td_rarity :: int
  td_foundAt :: string
  td_locationProof :: string
  td_nftObjectId :: string
  td_transactionDigest :: string
  td_blockHeight :: "string option"
  td_events :: "string list"

record TreasureDiscoveryResult =
  transactionDigest :: string
  nftObjectId :: string
  treasureData :: TreasureData
  hunterProfileUpdated :: bool

record SuiService =
  keypair :: "string option"
  treasureRegistryId :: "string option"
  hunterProfileId :: "string option"
  isInitialized :: bool

record AsyncStorage =
  stored_treasure_registry_id :: "string option"
  stored_hunter_profile_id :: "string option"
  stored_found_treasures :: "TreasureData list"

record World =
  service :: SuiService
  storage :: AsyncStorage
  submitted :: "Transaction list"

text \<open>
  The answers of the environment. \<open>wallet_keys\<close> is the outcome of loading or creating
  the key pair in \<^verbatim>\<open>initializeWallet\<close> (the address of the key pair, or the error
  thrown by the key generation); \<open>getBalance_totalBalance\<close> is the balance in MIST that
  the node reports for an owner (\<open>None\<close>: the request fails); \<open>getObject_ok\<close> says
  whether \<^verbatim>\<open>client.getObject\<close> returns rather than throws; \<open>queryEvents_error\<close> is the
  error of \<^verbatim>\<open>client.queryEvents\<close>, if it throws; \<open>getOwnedObjects_first\<close> is
  \<^verbatim>\<open>data[0].data?.objectId\<close> of the owned-objects answer; \<open>random_rarity\<close> is
  \<^verbatim>\<open>Math.floor(Math.random() * 3) + 1\<close>.
\<close>

record Rpc =
  wallet_keys :: "thrown + string"
  getBalance_totalBalance :: "string \<Rightarrow> nat option"
  getObject_ok :: "string \<Rightarrow> bool"
  queryEvents_error :: "thrown option"
  getOwnedObjects_first :: "string \<Rightarrow> thrown + string option"
  signAndExecuteTransaction :: "Transaction \<Rightarrow> thrown + TxResult"
  random_rarity :: int
  clock_now :: string

definition packageId :: string where
  "packageId = ''0xbe95e5f80e4795169bfc994cf7fb9740f6ef4caa57f3e8010294eec5d4c1ebbe''"

text \<open>\<^verbatim>\<open>MIST_PER_SUI\<close> of the Sui SDK (\<^verbatim>\<open>@mysten/sui/utils\<close>): one SUI is \<open>10\<^sup>9\<close> MIST.\<close>

definition MIST_PER_SUI :: nat where
  "MIST_PER_SUI = 1000000000"

text \<open>A string is truthy when it is present and not empty.\<close>

fun truthy_id :: "string option \<Rightarrow> bool" where
  "truthy_id None = False"
| "truthy_id (Some s) = (s \<noteq> [])"

definition loadCachedObjectIds :: "World \<Rightarrow> World" where
  "loadCachedObjectIds w =
     (let registryId = stored_treasure_registry_id (storage w);
          profileId = stored_hunter_profile_id (storage w);
          s1 = (if truthy_id registryId then (service w)\<lparr>treasureRegistryId := registryId\<rparr>
                else service w);
          s2 = (if truthy_id profileId then s1\<lparr>hunterProfileId := profileId\<rparr> else s1)
      in w\<lparr>service := s2\<rparr>)"

definition initializeWallet :: "Rpc \<Rightarrow> World \<Rightarrow> (thrown + string) \<times> World" where
  "initializeWallet rpc w =
     (case (isInitialized (service w), keypair (service w)) of
        (True, Some address) \<Rightarrow> (Inr address, w)
      | _ \<Rightarrow>
        (case wallet_keys rpc of
           Inl e \<Rightarrow> (Inl (Error (''Failed to initialize wallet: '' @ message e)), w)
         | Inr address \<Rightarrow>
             (Inr address,
              loadCachedObjectIds
                (w\<lparr>service := (service w)\<lparr>keypair := Some address, isInitialized := True\<rparr>\<rparr>))))"

definition getBalance :: "Rpc \<Rightarrow> string \<Rightarrow> nat" where
  "getBalance rpc address =
     (case getBalance_totalBalance rpc address of Some b \<Rightarrow> b | None \<Rightarrow> 0)"

definition getBalanceInSui :: "Rpc \<Rightarrow> string \<Rightarrow> real" where
  "getBalanceInSui rpc address = real (getBalance rpc address) / real MIST_PER_SUI"

definition registryNotFound :: "Rpc \<Rightarrow> thrown" where
  "registryNotFound rpc =
     (case queryEvents_error rpc of
        Some e \<Rightarrow> e
      | None \<Rightarrow> Error ''TreasureRegistry not found. Please provide the registry object ID manually.'')"

definition findTreasureRegistry :: "Rpc \<Rightarrow> World \<Rightarrow> (thrown + string) \<times> World" where
  "findTreasureRegistry rpc w =
     (case treasureRegistryId (service w) of
        Some rid \<Rightarrow>
          (if rid \<noteq> [] then
             (if getObject_ok rpc rid then (Inr rid, w)
              else (Inl (registryNotFound rpc),
                    w\<lparr>service := (service w)\<lparr>treasureRegistryId := None\<rparr>\<rparr>))
           else (Inl (registryNotFound rpc), w))
      | None \<Rightarrow> (Inl (registryNotFound rpc), w))"

definition isCreated :: "string \<Rightarrow> ObjectChange \<Rightarrow> bool" where
  "isCreated typeName obj =
     (changeType obj = ''created'' \<and>
      (case objectType obj of None \<Rightarrow> False | Some t \<Rightarrow> includes_str t typeName))"

definition createdObjects :: "TxResult \<Rightarrow> ObjectChange list option" where
  "createdObjects result =
     map_option (filter (\<lambda>change. changeType change = ''created'')) (objectChanges result)"

definition createHunterProfile :: "Rpc \<Rightarrow> string \<Rightarrow> string \<Rightarrow> World \<Rightarrow> (thrown + string) \<times> World" where
  "createHunterProfile rpc address uname w =
     (let tx = \<lparr>sender = address, gasBudget = 20000000,
                target = packageId @ ''::treasure_nft::create_hunter_profile'',
                arguments = [uname]\<rparr>;
          w1 = w\<lparr>submitted := submitted w @ [tx]\<rparr>
      in case signAndExecuteTransaction rpc tx of
           Inl e \<Rightarrow> (Inl e, w1)
         | Inr result \<Rightarrow>
             (case createdObjects result of
                Some (c # cs) \<Rightarrow>
                  (case find (isCreated ''HunterProfile'') (c # cs) of
                     Some profileObject \<Rightarrow>
                       (case objectId profileObject of
                          Some oid \<Rightarrow>
                            (Inr oid,
                             w1\<lparr>service := (service w1)\<lparr>hunterProfileId := Some oid\<rparr>,
                                storage := (storage w1)\<lparr>stored_hunter_profile_id := Some oid\<rparr>\<rparr>)
                        | None \<Rightarrow>
                            (Inl (Error ''Failed to extract profile object ID from transaction result''), w1))
                   | None \<Rightarrow>
                       (Inl (Error ''Failed to extract profile object ID from transaction result''), w1))
              | _ \<Rightarrow> (Inl (Error ''Failed to extract profile object ID from transaction result''), w1)))"

definition searchOrCreateProfile :: "Rpc \<Rightarrow> string \<Rightarrow> World \<Rightarrow> (thrown + string) \<times> World" where
  "searchOrCreateProfile rpc address w =
     (case getOwnedObjects_first rpc address of
        Inl e \<Rightarrow> (Inl e, w)
      | Inr first \<Rightarrow>
          (if truthy_id first then
             (Inr (the first),
              w\<lparr>service := (service w)\<lparr>hunterProfileId := first\<rparr>,
                storage := (storage w)\<lparr>stored_hunter_profile_id := first\<rparr>\<rparr>)
           else createHunterProfile rpc address ''TreasureHunter'' w))"

definition findOrCreateHunterProfile :: "Rpc \<Rightarrow> World \<Rightarrow> (thrown + string) \<times> World" where
  "findOrCreateHunterProfile rpc w =
     (case keypair (service w) of
        None \<Rightarrow> (Inl (Error ''Wallet not initialized''), w)
      | Some address \<Rightarrow>
          (if truthy_id (hunterProfileId (service w)) then
             (if getObject_ok rpc (the (hunterProfileId (service w)))
              then (Inr (the (hunterProfileId (service w))), w)
              else searchOrCreateProfile rpc address
                     (w\<lparr>service := (service w)\<lparr>hunterProfileId := None\<rparr>\<rparr>))
           else searchOrCreateProfile rpc address w))"

text \<open>
  The \<^verbatim>\<open>catch\<close> block of \<^verbatim>\<open>findTreasure\<close>: an error whose message carries one of the
  contract's abort codes is replaced by a specific message; any other error is thrown
  again as it is.
\<close>

definition rethrowSpecific :: "thrown \<Rightarrow> thrown" where
  "rethrowSpecific error =
     (if includes_str (message error) ''E_TREASURE_ALREADY_FOUND'' then
        Error ''This treasure has already been found by someone else!''
      else if includes_str (message error) ''E_INVALID_LOCATION'' then
        Error ''Location verification failed. Make sure you are at the correct location.''
      else if includes_str (message error) ''E_INSUFFICIENT_RANK'' then
        Error ''Your hunter rank is too low for this treasure. Keep hunting to level up!''
      else if includes_str (message error) ''E_INVALID_TREASURE_ID'' then
        Error ''Invalid treasure ID. This treasure may not exist.''
      else error)"

definition storeTreasureLocally :: "TreasureData \<Rightarrow> World \<Rightarrow> World" where
  "storeTreasureLocally td w =
     w\<lparr>storage := (storage w)\<lparr>stored_found_treasures := stored_found_treasures (storage w) @ [td]\<rparr>\<rparr>"

text \<open>The body of the \<^verbatim>\<open>try\<close> block of \<^verbatim>\<open>findTreasure\<close>, after the wallet is there.\<close>

definition findTreasureBody ::
  "Rpc \<Rightarrow> string \<Rightarrow> string \<Rightarrow> string \<Rightarrow> World \<Rightarrow> (thrown + TreasureDiscoveryResult) \<times> World" where
  "findTreasureBody rpc address treasureId locationProof w =
     (let balance = getBalanceInSui rpc address in
      if balance < 0.05 then
        (Inl (Error ''Insufficient SUI balance for transaction. Need at least 0.05 SUI for gas.''), w)
      else
        (case findTreasureRegistry rpc w of
           (Inl e, w1) \<Rightarrow> (Inl e, w1)
         | (Inr registryId, w1) \<Rightarrow>
        (case findOrCreateHunterProfile rpc w1 of
           (Inl e, w2) \<Rightarrow> (Inl e, w2)
         | (Inr profileId, w2) \<Rightarrow>
        (let tx = \<lparr>sender = address, gasBudget = 50000000,
                   target = packageId @ ''::treasure_nft::find_treasure'',
                   arguments = [registryId, profileId, treasureId, locationProof, ''0x6'']\<rparr>;
             w3 = w2\<lparr>submitted := submitted w2 @ [tx]\<rparr>
         in case signAndExecuteTransaction rpc tx of
              Inl e \<Rightarrow> (Inl e, w3)
            | Inr result \<Rightarrow>
                (if effectsStatus result \<noteq> Some ''success'' then
                   (Inl (Error (''Transaction failed: '' @
                      (if truthy_id (effectsError result) then the (effectsError result)
                       else ''Unknown transaction error''))), w3)
                 else
                   (case find (isCreated ''TreasureNFT'')
                           (case createdObjects result of Some cs \<Rightarrow> cs | None \<Rightarrow> []) of
                      None \<Rightarrow>
                        (Inl (Error ''Failed to extract NFT object ID from transaction result''), w3)
                    | Some nftObject \<Rightarrow>
                        (case objectId nftObject of
                           None \<Rightarrow>
                             (Inl (Error ''Failed to extract NFT object ID from transaction result''), w3)
                         | Some oid \<Rightarrow>
                             (let td = \<lparr>td_treasureId = treasureId,
                                        td_name = ''Treasure '' @ treasureId,
                                        td_description =
                                          ''A mysterious treasure discovered through blockchain hunting'',
                                        td_rarity = random_rarity rpc,
                                        td_foundAt = clock_now rpc,
                                        td_locationProof = locationProof,
                                        td_nftObjectId = oid,
                                        td_transactionDigest = digest result,
                                        td_blockHeight = checkpoint result,
                                        td_events =
                                          (case events result of Some es \<Rightarrow> es | None \<Rightarrow> [])\<rparr>
                              in (Inr \<lparr>transactionDigest = digest result, nftObjectId = oid,
                                       treasureData = td, hunterProfileUpdated = True\<rparr>,
                                  storeTreasureLocally td w3)))))))))"

text \<open>
  \<^verbatim>\<open>findTreasure\<close>: the wallet is initialised first if there is no key pair
  (\<open>ensureWallet\<close>), outside the \<^verbatim>\<open>try\<close>, so that its error is not translated; every
  error of the body goes through the \<^verbatim>\<open>catch\<close> block.
\<close>

definition ensureWallet :: "Rpc \<Rightarrow> World \<Rightarrow> (thrown + string) \<times> World" where
  "ensureWallet rpc w =
     (case keypair (service w) of
        Some address \<Rightarrow> (Inr address, w)
      | None \<Rightarrow> initializeWallet rpc w)"

definition findTreasure ::
  "Rpc \<Rightarrow> string \<Rightarrow> string \<Rightarrow> World \<Rightarrow> (thrown + TreasureDiscoveryResult) \<times> World" where
  "findTreasure rpc treasureId locationProof w =
     (case ensureWallet rpc w of
        (Inl e, w0) \<Rightarrow> (Inl e, w0)
      | (Inr address, w0) \<Rightarrow>
          (case findTreasureBody rpc address treasureId locationProof w0 of
             (Inl e, w1) \<Rightarrow> (Inl (rethrowSpecific e), w1)
           | (Inr r, w1) \<Rightarrow> (Inr r, w1)))"

section \<open>JavaScript values\<close>

text \<open>
  The values that \<^verbatim>\<open>JSON.parse\<close> returns and that the NFC service builds. A finite
  number is modelled by its exact rational value (binary rounding is outside the model);
  \<^verbatim>\<open>NaN\<close> and the infinities are separate values. An object is the list of its
  properties in insertion order, each name once.
\<close>

datatype number = Finite rat | NaN | PosInfinity | NegInfinity

datatype jsval =
    Undefined
  | Null
  | Bool bool
  | Num number
  | Str string
  | Arr "jsval list"
  | Obj "(string \<times> jsval) list"

text \<open>
  The built-in functions of the language and of the NFC library that the services call.
  They are not part of the program, so the services take them as a parameter:
  \<^item> \<open>JSON_parse\<close> is \<^verbatim>\<open>JSON.parse\<close> on a string (\<open>None\<close>: it throws a
    \<^verbatim>\<open>SyntaxError\<close>, whose message is \<open>syntaxErrorMessage\<close> of the text);
  \<^item> \<open>JSON_stringify\<close> is \<^verbatim>\<open>JSON.stringify\<close>;
  \<^item> \<open>NumberToString\<close> and \<open>StringToNumber\<close> are the conversions between numbers and
    strings;
  \<^item> \<open>typeErrorMessage\<close> is the message of the \<^verbatim>\<open>TypeError\<close> for reading the named
    property of \<^verbatim>\<open>null\<close>;
  \<^item> \<open>Ndef_text_decodePayload\<close> is \<^verbatim>\<open>Ndef.text.decodePayload\<close> of
    react-native-nfc-manager on the bytes of a record (\<open>Inl\<close>: it throws);
  \<^item> \<open>TextDecoder_decode\<close> is \<^verbatim>\<open>new TextDecoder('utf-8').decode\<close> (\<open>None\<close>: it throws,
    as where the class does not exist);
  \<^item> \<open>Date_now\<close> is \<^verbatim>\<open>Date.now()\<close>.
\<close>

record Runtime =
  JSON_parse :: "string \<Rightarrow> jsval option"
  JSON_stringify :: "jsval \<Rightarrow> string"
  NumberToString :: "number \<Rightarrow> string"
  StringToNumber :: "string \<Rightarrow> number"
  syntaxErrorMessage :: "string \<Rightarrow> string"
  typeErrorMessage :: "string \<Rightarrow> string"
  Ndef_text_decodePayload :: "nat list \<Rightarrow> thrown + string"
  TextDecoder_decode :: "nat list \<Rightarrow> string option"
  Date_now :: int

text \<open>\<^verbatim>\<open>String(error)\<close>, as a template literal renders a caught error.\<close>

definition errorName :: "thrown \<Rightarrow> string" where
  "errorName e =
     (case e of Error _ \<Rightarrow> ''Error'' | SyntaxError _ \<Rightarrow> ''SyntaxError'' | TypeError _ \<Rightarrow> ''TypeError'')"

definition errorToString :: "thrown \<Rightarrow> string" where
  "errorToString e = (if message e = [] then errorName e else errorName e @ '': '' @ message e)"

text \<open>Truthiness, as \<^verbatim>\<open>!x\<close>, \<^verbatim>\<open>x || y\<close> and \<^verbatim>\<open>x ? y : z\<close> test it.\<close>

fun truthy :: "jsval \<Rightarrow> bool" where
  "truthy Undefined = False"
| "truthy Null = False"
| "truthy (Bool b) = b"
| "truthy (Num n) = (n \<noteq> Finite 0 \<and> n \<noteq> NaN)"
| "truthy (Str s) = (s \<noteq> [])"
| "truthy (Arr _) = True"
| "truthy (Obj _) = True"

text \<open>
  Reading a property. On an object it is the property's value, or \<^verbatim>\<open>undefined\<close>; on
  \<^verbatim>\<open>null\<close> and \<^verbatim>\<open>undefined\<close> it throws a \<^verbatim>\<open>TypeError\<close>. On a string, number, boolean or
  array it is \<^verbatim>\<open>undefined\<close> for every name the services read (\<^verbatim>\<open>type\<close>, \<^verbatim>\<open>data\<close>,
  \<^verbatim>\<open>nfc_data\<close>, \<^verbatim>\<open>treasure_name\<close>, \<^verbatim>\<open>id\<close>, \<^verbatim>\<open>lat\<close>, \<^verbatim>\<open>lng\<close>, \<^verbatim>\<open>t\<close>, \<^verbatim>\<open>h\<close>): none of them is
  a property of the prototypes.
\<close>

fun getField :: "jsval \<Rightarrow> string \<Rightarrow> jsval" where
  "getField (Obj ps) k = (case map_of ps k of Some v \<Rightarrow> v | None \<Rightarrow> Undefined)"
| "getField _ k = Undefined"

definition getProp :: "Runtime \<Rightarrow> jsval \<Rightarrow> string \<Rightarrow> thrown + jsval" where
  "getProp rt v k =
     (if v = Null \<or> v = Undefined then Inl (TypeError (typeErrorMessage rt k))
      else Inr (getField v k))"

text \<open>\<^verbatim>\<open>String(v)\<close>: the conversion that template literals and \<^verbatim>\<open>JSON.parse\<close> apply.\<close>

fun joinWith :: "string \<Rightarrow> string list \<Rightarrow> string" where
  "joinWith sep [] = []"
| "joinWith sep [x] = x"
| "joinWith sep (x # y # ys) = x @ sep @ joinWith sep (y # ys)"

fun ToString :: "Runtime \<Rightarrow> jsval \<Rightarrow> string" where
  "ToString rt Undefined = ''undefined''"
| "ToString rt Null = ''null''"
| "ToString rt (Bool b) = (if b then ''true'' else ''false'')"
| "ToString rt (Num n) = NumberToString rt n"
| "ToString rt (Str s) = s"
| "ToString rt (Arr vs) =
     joinWith '',''
       (map (\<lambda>v. if v = Undefined \<or> v = Null then [] else ToString rt v) vs)"
| "ToString rt (Obj ps) = ''[object Object]''"

text \<open>\<^verbatim>\<open>Number(v)\<close> and the product of two numbers.\<close>

definition ToNumber :: "Runtime \<Rightarrow> jsval \<Rightarrow> number" where
  "ToNumber rt v =
     (case v of
        Undefined \<Rightarrow> NaN
      | Null \<Rightarrow> Finite 0
      | Bool b \<Rightarrow> Finite (if b then 1 else 0)
      | Num n \<Rightarrow> n
      | _ \<Rightarrow> StringToNumber rt (ToString rt v))"

definition signOf :: "number \<Rightarrow> rat" where
  "signOf n = (case n of Finite a \<Rightarrow> sgn a | PosInfinity \<Rightarrow> 1 | NegInfinity \<Rightarrow> - 1 | NaN \<Rightarrow> 0)"

definition js_times :: "number \<Rightarrow> number \<Rightarrow> number" where
  "js_times x y =
     (case (x, y) of
        (Finite a, Finite b) \<Rightarrow> Finite (a * b)
      | _ \<Rightarrow>
        (if x = NaN \<or> y = NaN \<or> signOf x * signOf y = 0 then NaN
         else if signOf x * signOf y > 0 then PosInfinity
         else NegInfinity))"

definition parseJSON :: "Runtime \<Rightarrow> string \<Rightarrow> thrown + jsval" where
  "parseJSON rt source =
     (case JSON_parse rt source of
        None \<Rightarrow> Inl (SyntaxError (syntaxErrorMessage rt source))
      | Some v \<Rightarrow> Inr v)"

section \<open>NFC and QR payloads (services/NFCService.ts, services/AlternativeNFCService.ts)\<close>

record TreasureNFCData =
  treasureId :: string
  name :: string
  description :: string
  rarity :: number
  coordinates :: string
  location :: string
  imageUrl :: "string option"
  requiredRank :: number
  rewardPoints :: number
  createdAt :: number
  signature :: "string option"

text \<open>
  The object that a \<^verbatim>\<open>TreasureNFCData\<close> value is: an optional field that is absent (or
  \<^verbatim>\<open>undefined\<close>) is no property.
\<close>

definition optionalProp :: "string \<Rightarrow> string option \<Rightarrow> (string \<times> jsval) list" where
  "optionalProp k v = (case v of None \<Rightarrow> [] | Some s \<Rightarrow> [(k, Str s)])"

definition toObject :: "TreasureNFCData \<Rightarrow> jsval" where
  "toObject d =
     Obj ([(''treasureId'', Str (treasureId d)),
           (''name'', Str (name d)),
           (''description'', Str (description d)),
           (''rarity'', Num (rarity d)),
           (''coordinates'', Str (coordinates d)),
           (''location'', Str (location d))] @
          optionalProp ''imageUrl'' (imageUrl d) @
          [(''requiredRank'', Num (requiredRank d)),
           (''rewardPoints'', Num (rewardPoints d)),
           (''createdAt'', Num (createdAt d))] @
          optionalProp ''signature'' (signature d))"

text \<open>The \<^verbatim>\<open>payload\<close> object of \<^verbatim>\<open>generateQRData\<close>, and the function itself.\<close>

definition qrPayload :: "TreasureNFCData \<Rightarrow> jsval" where
  "qrPayload d =
     Obj [(''type'', Str ''treasure_hunt_qr''),
          (''version'', Str ''1.0''),
          (''data'', toObject d)]"

definition generateQRData :: "Runtime \<Rightarrow> TreasureNFCData \<Rightarrow> string" where
  "generateQRData rt d = JSON_stringify rt (qrPayload d)"

text \<open>
  \<^verbatim>\<open>parseQRData\<close>: whatever the \<^verbatim>\<open>try\<close> block throws is caught and thrown again as an
  \<^verbatim>\<open>Error\<close> whose message starts with \<^verbatim>\<open>Invalid QR data: \<close>. The value returned is
  \<^verbatim>\<open>parsed.data\<close> as it is: the type \<^verbatim>\<open>TreasureNFCData\<close> is not checked at run time.
\<close>

definition parseQRDataBody :: "Runtime \<Rightarrow> string \<Rightarrow> thrown + jsval" where
  "parseQRDataBody rt qrString =
     (case parseJSON rt qrString of
        Inl e \<Rightarrow> Inl e
      | Inr parsed \<Rightarrow>
          (case getProp rt parsed ''type'' of
             Inl e \<Rightarrow> Inl e
           | Inr ty \<Rightarrow>
               (if ty \<noteq> Str ''treasure_hunt_qr'' \<or> \<not> truthy (getField parsed ''data'')
                then Inl (Error ''Invalid QR treasure data format'')
                else Inr (getField parsed ''data''))))"

definition parseQRData :: "Runtime \<Rightarrow> string \<Rightarrow> thrown + jsval" where
  "parseQRData rt qrString =
     (case parseQRDataBody rt qrString of
        Inl e \<Rightarrow> Inl (Error (''Invalid QR data: '' @ message e))
      | Inr d \<Rightarrow> Inr d)"

text \<open>
  The branch of \<^verbatim>\<open>parseTreasureFromPayload\<close> for the \<^verbatim>\<open>treasure_name\<close>/\<^verbatim>\<open>nfc_data\<close>
  format, which both services share: the body of its \<^verbatim>\<open>try\<close> block.
\<close>

definition parseNfcFormat :: "Runtime \<Rightarrow> string \<Rightarrow> thrown + jsval" where
  "parseNfcFormat rt payloadString =
     (case parseJSON rt payloadString of
        Inl e \<Rightarrow> Inl e
      | Inr data \<Rightarrow>
     (case getProp rt data ''nfc_data'' of
        Inl e \<Rightarrow> Inl e
      | Inr nfc_data \<Rightarrow>
     (case parseJSON rt (ToString rt nfc_data) of
        Inl e \<Rightarrow> Inl e
      | Inr nfcData \<Rightarrow>
     (case getProp rt nfcData ''id'' of
        Inl e \<Rightarrow> Inl e
      | Inr ident \<Rightarrow>
          Inr (Obj
            [(''treasureId'', if truthy ident then ident else Str ''unknown''),
             (''name'', getField data ''treasure_name''),
             (''description'', Str ''Treasure discovered via NFC''),
             (''rarity'', Num (Finite 2)),
             (''coordinates'',
                Str (ToString rt (getField nfcData ''lat'') @ '','' @ ToString rt (getField nfcData ''lng''))),
             (''location'', getField data ''treasure_name''),
             (''requiredRank'', Num (Finite 1)),
             (''rewardPoints'', Num (Finite 250)),
             (''createdAt'',
                if truthy (getField nfcData ''t'')
                then Num (js_times (ToNumber rt (getField nfcData ''t'')) (Finite 1000))
                else Num (Finite (of_int (Date_now rt)))),
             (''signature'', getField nfcData ''h'')])))))"

definition nfcFormatBranch :: "Runtime \<Rightarrow> string \<Rightarrow> thrown + jsval" where
  "nfcFormatBranch rt payloadString =
     (case parseNfcFormat rt payloadString of
        Inl parseError \<Rightarrow>
          Inl (Error (''Failed to parse treasure format: '' @ errorToString parseError))
      | Inr d \<Rightarrow> Inr d)"

definition NFCService_parseTreasureFromPayload :: "Runtime \<Rightarrow> string \<Rightarrow> thrown + jsval" where
  "NFCService_parseTreasureFromPayload rt payloadString =
     (if includes_str payloadString ''treasure_name'' \<and> includes_str payloadString ''nfc_data''
      then nfcFormatBranch rt payloadString
      else
        (case parseJSON rt payloadString of
           Inl parseError \<Rightarrow> Inl (Error ''Unrecognized payload format'')
         | Inr parsed \<Rightarrow>
             (case getProp rt parsed ''type'' of
                Inl parseError \<Rightarrow> Inl (Error ''Unrecognized payload format'')
              | Inr ty \<Rightarrow>
                  (if ty = Str ''treasure_hunt_qr'' \<and> truthy (getField parsed ''data'')
                   then Inr (getField parsed ''data'')
                   else Inl (Error ''Unrecognized payload format'')))))"

definition AlternativeNFCService_parseTreasureFromPayload :: "Runtime \<Rightarrow> string \<Rightarrow> thrown + jsval" where
  "AlternativeNFCService_parseTreasureFromPayload rt payloadString =
     (if includes_str payloadString ''treasure_name'' \<and> includes_str payloadString ''nfc_data''
      then nfcFormatBranch rt payloadString
      else Inl (Error ''Unrecognized payload format''))"

text \<open>
  A scanned tag: \<^verbatim>\<open>tag.ndefMessage\<close> may be missing, and so may the \<^verbatim>\<open>payload\<close> of a
  record. The payload is an array of numbers; \<^verbatim>\<open>new Uint8Array\<close> reduces each to a byte.
\<close>

record NdefRecord =
  payload :: "nat list option"

record NfcTag =
  ndefMessage :: "NdefRecord list option"

definition Uint8Array :: "nat list \<Rightarrow> nat list" where
  "Uint8Array xs = map (\<lambda>n. n mod 256) xs"

text \<open>
  The loop \<^verbatim>\<open>for (let skip = 0; skip <= 5; skip++)\<close> of \<^verbatim>\<open>processNFCTag\<close>, from a given
  value of \<^verbatim>\<open>skip\<close> on: the first decoding that contains \<^verbatim>\<open>treasure_name\<close> or an opening
  brace ends the loop.
\<close>

function decodeWithSkips :: "Runtime \<Rightarrow> nat list \<Rightarrow> nat \<Rightarrow> string option" where
  "decodeWithSkips rt bytes skip =
     (if skip \<le> 5 then
        (case TextDecoder_decode rt (Uint8Array (drop skip bytes)) of
           Some decoded \<Rightarrow>
             (if includes_str decoded ''treasure_name'' \<or> includes_str decoded ''{''
              then Some decoded
              else decodeWithSkips rt bytes (skip + 1))
         | None \<Rightarrow> decodeWithSkips rt bytes (skip + 1))
      else None)"
  by pat_completeness auto
termination
  by (relation "measure (\<lambda>(rt, bytes, skip). 6 - skip)") auto

declare decodeWithSkips.simps [simp del]

text \<open>
  \<^verbatim>\<open>processNFCTag\<close> has the same text in both services and ends in the service's own
  \<^verbatim>\<open>parseTreasureFromPayload\<close>, here the argument \<open>parse\<close>.
\<close>

definition processNFCTagWith ::
  "(Runtime \<Rightarrow> string \<Rightarrow> thrown + jsval) \<Rightarrow> Runtime \<Rightarrow> NfcTag \<Rightarrow> thrown + jsval" where
  "processNFCTagWith parse rt tag =
     (case ndefMessage tag of
        None \<Rightarrow> Inl (Error ''No NDEF data found on tag'')
      | Some [] \<Rightarrow> Inl (Error ''No NDEF data found on tag'')
      | Some (record # _) \<Rightarrow>
          (case payload record of
             None \<Rightarrow> Inl (Error ''No payload in NDEF record'')
           | Some bytes \<Rightarrow>
               (case Ndef_text_decodePayload rt (Uint8Array bytes) of
                  Inr payloadString \<Rightarrow> parse rt payloadString
                | Inl error \<Rightarrow>
                    (case decodeWithSkips rt bytes 0 of
                       None \<Rightarrow> Inl (Error ''Failed to decode NFC payload'')
                     | Some payloadString \<Rightarrow> parse rt payloadString))))"

definition NFCService_processNFCTag :: "Runtime \<Rightarrow> NfcTag \<Rightarrow> thrown + jsval" where
  "NFCService_processNFCTag = processNFCTagWith NFCService_parseTreasureFromPayload"

definition AlternativeNFCService_processNFCTag :: "Runtime \<Rightarrow> NfcTag \<Rightarrow> thrown + jsval" where
  "AlternativeNFCService_processNFCTag =
     processNFCTagWith AlternativeNFCService_parseTreasureFromPayload"

section \<open>A reference runtime\<close>

text \<open>
  To run the services on concrete payloads, the built-in functions are given a reference
  implementation: the JSON grammar of ECMA-404 with the serialisation rules of
  \<^verbatim>\<open>JSON.stringify\<close>, decimal number conversion, and the text record layout of the NFC
  Forum (a status byte whose low six bits give the length of the language code, the
  language code, the text). It agrees with the engines on well-formed UTF-8 text, on
  property names that are not array indices, and on numbers that are integers below
  \<open>10\<^sup>2\<^sup>1\<close> or short decimal fractions.
\<close>

definition isDigit :: "char \<Rightarrow> bool" where
  "isDigit c = (48 \<le> (of_char c :: nat) \<and> (of_char c :: nat) \<le> 57)"

definition digitVal :: "char \<Rightarrow> int" where
  "digitVal c = of_char c - 48"

definition digitChar :: "int \<Rightarrow> char" where
  "digitChar n = char_of (48 + n)"

definition isWs :: "char \<Rightarrow> bool" where
  "isWs c = ((of_char c :: nat) \<in> {32, 9, 10, 13})"

definition skipWs :: "string \<Rightarrow> string" where
  "skipWs s = dropWhile isWs s"

definition intOfDigits :: "string \<Rightarrow> int" where
  "intOfDigits ds = foldl (\<lambda>acc c. 10 * acc + digitVal c) 0 ds"

text \<open>The decimal digits of an integer that is not negative.\<close>

function showNat :: "int \<Rightarrow> string" where
  "showNat n = (if n < 10 then [digitChar n] else showNat (n div 10) @ [digitChar (n mod 10)])"
  by pat_completeness auto
termination
  by (relation "measure nat") auto

declare showNat.simps [simp del]

fun fracDigits :: "nat \<Rightarrow> rat \<Rightarrow> string" where
  "fracDigits 0 f = []"
| "fracDigits (Suc n) f =
     (if f = 0 then []
      else digitChar \<lfloor>f * 10\<rfloor> # fracDigits n (f * 10 - of_int \<lfloor>f * 10\<rfloor>))"

definition showRat :: "rat \<Rightarrow> string" where
  "showRat r =
     (if r < 0 then ''-'' else []) @ showNat \<lfloor>\<bar>r\<bar>\<rfloor> @
     (if \<bar>r\<bar> = of_int \<lfloor>\<bar>r\<bar>\<rfloor> then []
      else ''.'' @ fracDigits 20 (\<bar>r\<bar> - of_int \<lfloor>\<bar>r\<bar>\<rfloor>))"

definition ref_NumberToString :: "number \<Rightarrow> string" where
  "ref_NumberToString n =
     (case n of
        Finite r \<Rightarrow> showRat r
      | NaN \<Rightarrow> ''NaN''
      | PosInfinity \<Rightarrow> ''Infinity''
      | NegInfinity \<Rightarrow> ''-Infinity'')"

text \<open>
  A decimal literal: digits, an optional fraction, an optional exponent. The result is
  the value and the rest of the input.
\<close>

definition scaleBy :: "rat \<Rightarrow> int \<Rightarrow> rat" where
  "scaleBy m e = (if e \<ge> 0 then m * 10 ^ nat e else m / 10 ^ nat (- e))"

definition parseExponent :: "string \<Rightarrow> (int \<times> string) option" where
  "parseExponent s =
     (case s of
        [] \<Rightarrow> Some (0, s)
      | c # cs \<Rightarrow>
          (if c = CHR ''e'' \<or> c = CHR ''E'' then
             (let neg = (cs \<noteq> [] \<and> hd cs = CHR ''-'');
                  signed = (cs \<noteq> [] \<and> (hd cs = CHR ''-'' \<or> hd cs = CHR ''+''));
                  ds = (if signed then tl cs else cs)
              in if takeWhile isDigit ds = [] then None
                 else Some ((if neg then - 1 else 1) * intOfDigits (takeWhile isDigit ds),
                            dropWhile isDigit ds))
           else Some (0, s)))"

definition parseFraction :: "string \<Rightarrow> (string \<times> string) option" where
  "parseFraction s =
     (case s of
        [] \<Rightarrow> Some ([], s)
      | c # cs \<Rightarrow>
          (if c = CHR ''.'' then
             (if takeWhile isDigit cs = [] then None
              else Some (takeWhile isDigit cs, dropWhile isDigit cs))
           else Some ([], s)))"

definition parseNumber :: "string \<Rightarrow> (rat \<times> string) option" where
  "parseNumber s =
     (let neg = (s \<noteq> [] \<and> hd s = CHR ''-'');
          s1 = (if neg then tl s else s);
          ip = takeWhile isDigit s1
      in if ip = [] \<or> (length ip > 1 \<and> hd ip = CHR ''0'') then None
         else
           (case parseFraction (dropWhile isDigit s1) of
              None \<Rightarrow> None
            | Some (fp, s2) \<Rightarrow>
                (case parseExponent s2 of
                   None \<Rightarrow> None
                 | Some (e, s3) \<Rightarrow>
                     Some ((if neg then - 1 else 1) *
                             scaleBy (of_int (intOfDigits (ip @ fp))) (e - int (length fp)),
                           s3))))"

text \<open>Strings: the escapes of the grammar; a \<^verbatim>\<open>\u\<close> escape is written out in UTF-8.\<close>

definition hexVal :: "char \<Rightarrow> nat option" where
  "hexVal c =
     (let n = (of_char c :: nat) in
      if 48 \<le> n \<and> n \<le> 57 then Some (n - 48)
      else if 97 \<le> n \<and> n \<le> 102 then Some (n - 87)
      else if 65 \<le> n \<and> n \<le> 70 then Some (n - 55)
      else None)"

definition hex4 :: "char \<Rightarrow> char \<Rightarrow> char \<Rightarrow> char \<Rightarrow> nat option" where
  "hex4 a b c d =
     (case (hexVal a, hexVal b, hexVal c, hexVal d) of
        (Some w, Some x, Some y, Some z) \<Rightarrow> Some (((w * 16 + x) * 16 + y) * 16 + z)
      | _ \<Rightarrow> None)"

definition utf8 :: "nat \<Rightarrow> string" where
  "utf8 cp =
     (if cp < 128 then [char_of cp]
      else if cp < 2048 then [char_of (192 + cp div 64), char_of (128 + cp mod 64)]
      else if cp < 65536 then
        [char_of (224 + cp div 4096), char_of (128 + cp div 64 mod 64), char_of (128 + cp mod 64)]
      else
        [char_of (240 + cp div 262144), char_of (128 + cp div 4096 mod 64),
         char_of (128 + cp div 64 mod 64), char_of (128 + cp mod 64)])"

definition simpleEscape :: "char \<Rightarrow> char option" where
  "simpleEscape e =
     (if e = CHR ''\"'' then Some (CHR ''\"'')
      else if e = CHR 0x5C then Some (CHR 0x5C)
      else if e = CHR ''/'' then Some (CHR ''/'')
      else if e = CHR ''b'' then Some (CHR 0x08)
      else if e = CHR ''f'' then Some (CHR 0x0C)
      else if e = CHR ''n'' then Some (CHR 0x0A)
      else if e = CHR ''r'' then Some (CHR 0x0D)
      else if e = CHR ''t'' then Some (CHR 0x09)
      else None)"

text \<open>
  The characters of a string after its opening quote, up to the closing quote. A high
  surrogate followed by an escaped low surrogate is one code point.
\<close>

fun parseChars :: "string \<Rightarrow> (string \<times> string) option" where
  "parseChars [] = None"
| "parseChars (c # cs) =
     (if c = CHR ''\"'' then Some ([], cs)
      else if c = CHR 0x5C then
        (case cs of
           [] \<Rightarrow> None
         | e # es \<Rightarrow>
             (if e = CHR ''u'' then
                (case es of
                   a # b # c1 # d # rest \<Rightarrow>
                     (case hex4 a b c1 d of
                        None \<Rightarrow> None
                      | Some hi \<Rightarrow>
                          (case rest of
                             b1 # u1 # a2 # b2 # c2 # d2 # rest2 \<Rightarrow>
                               (if 55296 \<le> hi \<and> hi < 56320 \<and> b1 = CHR 0x5C \<and> u1 = CHR ''u'' \<and>
                                   (case hex4 a2 b2 c2 d2 of
                                      Some lo \<Rightarrow> 56320 \<le> lo \<and> lo < 57344
                                    | None \<Rightarrow> False)
                                then
                                  map_option
                                    (\<lambda>(str, r). (utf8 (65536 + (hi - 55296) * 1024 +
                                                        (the (hex4 a2 b2 c2 d2) - 56320)) @ str, r))
                                    (parseChars rest2)
                                else map_option (\<lambda>(str, r). (utf8 hi @ str, r)) (parseChars rest))
                           | _ \<Rightarrow> map_option (\<lambda>(str, r). (utf8 hi @ str, r)) (parseChars rest)))
                 | _ \<Rightarrow> None)
              else
                (case simpleEscape e of
                   None \<Rightarrow> None
                 | Some ch \<Rightarrow> map_option (\<lambda>(str, r). (ch # str, r)) (parseChars es))))
      else if (of_char c :: nat) < 32 then None
      else map_option (\<lambda>(str, r). (c # str, r)) (parseChars cs))"

text \<open>A later property of the same name replaces the value of the earlier one.\<close>

fun setProp :: "(string \<times> jsval) list \<Rightarrow> string \<Rightarrow> jsval \<Rightarrow> (string \<times> jsval) list" where
  "setProp [] k v = [(k, v)]"
| "setProp ((k', v') # ps) k v = (if k' = k then (k, v) # ps else (k', v') # setProp ps k v)"

text \<open>
  Values, the elements of an array after its opening bracket, and the members of an
  object after its opening brace. The first argument bounds the number of nested and
  consecutive values; the length of the text is always enough.
\<close>

fun parseValue :: "nat \<Rightarrow> string \<Rightarrow> (jsval \<times> string) option"
  and parseElements :: "nat \<Rightarrow> jsval list \<Rightarrow> string \<Rightarrow> (jsval \<times> string) option"
  and parseMembers :: "nat \<Rightarrow> (string \<times> jsval) list \<Rightarrow> string \<Rightarrow> (jsval \<times> string) option"
where
  "parseValue 0 s = None"
| "parseValue (Suc n) s =
     (case s of
        [] \<Rightarrow> None
      | c # cs \<Rightarrow>
          (if c = CHR ''{'' then
             (case skipWs cs of
                [] \<Rightarrow> None
              | c' # cs' \<Rightarrow> if c' = CHR ''}'' then Some (Obj [], cs') else parseMembers n [] (c' # cs'))
           else if c = CHR ''['' then
             (case skipWs cs of
                [] \<Rightarrow> None
              | c' # cs' \<Rightarrow> if c' = CHR '']'' then Some (Arr [], cs') else parseElements n [] (c' # cs'))
           else if c = CHR ''\"'' then map_option (\<lambda>(str, r). (Str str, r)) (parseChars cs)
           else if startsWith s ''true'' then Some (Bool True, drop 4 s)
           else if startsWith s ''false'' then Some (Bool False, drop 5 s)
           else if startsWith s ''null'' then Some (Null, drop 4 s)
           else map_option (\<lambda>(r, rest). (Num (Finite r), rest)) (parseNumber s)))"
| "parseElements 0 acc s = None"
| "parseElements (Suc n) acc s =
     (case parseValue n s of
        None \<Rightarrow> None
      | Some (v, r) \<Rightarrow>
          (case skipWs r of
             [] \<Rightarrow> None
           | c # cs \<Rightarrow>
               (if c = CHR '','' then parseElements n (acc @ [v]) (skipWs cs)
                else if c = CHR '']'' then Some (Arr (acc @ [v]), cs)
                else None)))"
| "parseMembers 0 acc s = None"
| "parseMembers (Suc n) acc s =
     (case s of
        [] \<Rightarrow> None
      | q # qs \<Rightarrow>
          (if q \<noteq> CHR ''\"'' then None
           else
             (case parseChars qs of
                None \<Rightarrow> None
              | Some (k, r) \<Rightarrow>
                  (case skipWs r of
                     [] \<Rightarrow> None
                   | c # cs \<Rightarrow>
                       (if c \<noteq> CHR '':'' then None
                        else
                          (case parseValue n (skipWs cs) of
                             None \<Rightarrow> None
                           | Some (v, r') \<Rightarrow>
                               (case skipWs r' of
                                  [] \<Rightarrow> None
                                | c' # cs' \<Rightarrow>
                                    (if c' = CHR '','' then parseMembers n (setProp acc k v) (skipWs cs')
                                     else if c' = CHR ''}'' then Some (Obj (setProp acc k v), cs')
                                     else None))))))))"

definition ref_JSON_parse :: "string \<Rightarrow> jsval option" where
  "ref_JSON_parse s =
     (case parseValue (Suc (length s)) (skipWs s) of
        None \<Rightarrow> None
      | Some (v, r) \<Rightarrow> if skipWs r = [] then Some v else None)"

text \<open>Serialisation.\<close>

definition hexDigit :: "nat \<Rightarrow> char" where
  "hexDigit n = (if n < 10 then char_of (48 + n) else char_of (87 + n))"

definition escapeChar :: "char \<Rightarrow> string" where
  "escapeChar c =
     (let n = (of_char c :: nat) in
      if c = CHR ''\"'' then [CHR 0x5C, CHR ''\"'']
      else if c = CHR 0x5C then [CHR 0x5C, CHR 0x5C]
      else if n = 8 then [CHR 0x5C, CHR ''b'']
      else if n = 12 then [CHR 0x5C, CHR ''f'']
      else if n = 10 then [CHR 0x5C, CHR ''n'']
      else if n = 13 then [CHR 0x5C, CHR ''r'']
      else if n = 9 then [CHR 0x5C, CHR ''t'']
      else if n < 32 then [CHR 0x5C, CHR ''u'', CHR ''0'', CHR ''0'', hexDigit (n div 16), hexDigit (n mod 16)]
      else [c])"

definition quote :: "string \<Rightarrow> string" where
  "quote s = [CHR ''\"''] @ concat (map escapeChar s) @ [CHR ''\"'']"

fun stringify :: "jsval \<Rightarrow> string" where
  "stringify Undefined = ''undefined''"
| "stringify Null = ''null''"
| "stringify (Bool b) = (if b then ''true'' else ''false'')"
| "stringify (Num n) = (case n of Finite r \<Rightarrow> showRat r | _ \<Rightarrow> ''null'')"
| "stringify (Str s) = quote s"
| "stringify (Arr vs) =
     ''['' @ joinWith '','' (map (\<lambda>v. if v = Undefined then ''null'' else stringify v) vs) @ '']''"
| "stringify (Obj ps) =
     ''{'' @ joinWith '',''
              (map (\<lambda>(k, v). quote k @ '':'' @ stringify v)
                   (filter (\<lambda>(k, v). v \<noteq> Undefined) ps)) @ ''}''"

text \<open>Conversion of a string to a number: a decimal literal between white space.\<close>

definition ref_StringToNumber :: "string \<Rightarrow> number" where
  "ref_StringToNumber s =
     (let t = skipWs s;
          body = (if t \<noteq> [] \<and> hd t = CHR ''+'' then tl t else t)
      in if t = [] then Finite 0
         else if skipWs (drop 8 body) = [] \<and> take 8 body = ''Infinity'' then PosInfinity
         else if skipWs (drop 9 body) = [] \<and> take 9 body = ''-Infinity'' then NegInfinity
         else
           (case parseNumber body of
              Some (r, rest) \<Rightarrow> if skipWs rest = [] then Finite r else NaN
            | None \<Rightarrow> NaN))"

text \<open>
  The text record of the NFC library: the low six bits of the first byte are the length
  of the language code; the text is what follows the language code. The library throws
  when the text is cut within a multi-byte character or starts a character with a
  byte that cannot start one.
\<close>

fun wellFormedLeads :: "nat list \<Rightarrow> bool" where
  "wellFormedLeads [] = True"
| "wellFormedLeads (b # bs) =
     (if b < 128 then wellFormedLeads bs
      else if 191 < b \<and> b < 224 then length bs \<ge> 1 \<and> wellFormedLeads (drop 1 bs)
      else if 223 < b \<and> b < 240 then length bs \<ge> 2 \<and> wellFormedLeads (drop 2 bs)
      else if 239 < b \<and> b < 248 then length bs \<ge> 3 \<and> wellFormedLeads (drop 3 bs)
      else False)"

definition ref_decodePayload :: "nat list \<Rightarrow> thrown + string" where
  "ref_decodePayload bytes =
     (let languageCodeLength = (case bytes of [] \<Rightarrow> 0 | b # _ \<Rightarrow> b mod 64);
          textBytes = drop (languageCodeLength + 1) bytes
      in if wellFormedLeads textBytes then Inr (map char_of textBytes)
         else Inl (Error ''Un-expected encoding error, UTF-8 stream truncated, or incorrect''))"

definition ref_TextDecoder_decode :: "nat list \<Rightarrow> string option" where
  "ref_TextDecoder_decode bytes = Some (map char_of bytes)"

definition ref_runtime :: Runtime where
  "ref_runtime =
     \<lparr>JSON_parse = ref_JSON_parse,
      JSON_stringify = stringify,
      NumberToString = ref_NumberToString,
      StringToNumber = ref_StringToNumber,
      syntaxErrorMessage = (\<lambda>s. ''Unexpected token in JSON''),
      typeErrorMessage = (\<lambda>k. ''Cannot read properties of null (reading '' @ [CHR 0x27] @ k @ [CHR 0x27] @ '')''),
      Ndef_text_decodePayload = ref_decodePayload,
      TextDecoder_decode = ref_TextDecoder_decode,
      Date_now = 1700000000000\<rparr>"

section \<open>Concrete inputs and the specification's own functions\<close>

text \<open>
  The order of the ranks of the hunter slice, as the type lists them, and the rank that
  the specification assigns to a number of treasures found (5 for Explorer, 20 for
  Hunter, 50 for Master).
\<close>

definition rankIndex :: "Rank \<Rightarrow> nat" where
  "rankIndex r =
     (case r of Beginner \<Rightarrow> 0 | Explorer \<Rightarrow> 1 | Adventurer \<Rightarrow> 2 | Expert \<Rightarrow> 3 | MasterHunter \<Rightarrow> 4)"

definition specRankName :: "int \<Rightarrow> string" where
  "specRankName n =
     (if n \<ge> 50 then ''Master'' else if n \<ge> 20 then ''Hunter''
      else if n \<ge> 5 then ''Explorer'' else ''Beginner'')"

definition rankName :: "Rank \<Rightarrow> string" where
  "rankName r =
     (case r of Beginner \<Rightarrow> ''Beginner'' | Explorer \<Rightarrow> ''Explorer'' | Adventurer \<Rightarrow> ''Adventurer''
      | Expert \<Rightarrow> ''Expert'' | MasterHunter \<Rightarrow> ''Master Hunter'')"

text \<open>
  A hunter at level 1 with four treasures and a streak of seven, last active in January
  2020.
\<close>

definition hunter4 :: HunterState where
  "hunter4 =
     \<lparr>profile = Some
        \<lparr>hunterId = ''hunter_1'', username = ''ann'', rank = Beginner, level = 1,
         experience = 0, experienceToNext = 100, totalTreasuresFound = 4,
         currentStreak = 7, longestStreak = 9,
         joinedAt = ''2020-01-01T00:00:00.000Z'',
         lastActiveAt = ''2020-01-02T00:00:00.000Z'',
         stats = \<lparr>totalDistance = 0, treasuresFoundToday = 0, treasuresFoundThisWeek = 0,
                   treasuresFoundThisMonth = 0, averageHuntTime = 0, successRate = 0\<rparr>\<rparr>,
      isLoading = False, lastError = None\<rparr>"




datatype TerminalKind = TooFar | AlreadyClaimed | RankTooLow | InvalidTreasure | InsufficientFunds

definition abortCodes :: "(TerminalKind \<times> string) list" where
  "abortCodes =
     [(AlreadyClaimed, ''E_TREASURE_ALREADY_FOUND''),
      (TooFar, ''E_INVALID_LOCATION''),
      (RankTooLow, ''E_INSUFFICIENT_RANK''),
      (InvalidTreasure, ''E_INVALID_TREASURE_ID'')]"

definition raisedAs :: "TerminalKind \<Rightarrow> thrown \<Rightarrow> bool" where
  "raisedAs k e =
     (if k = InsufficientFunds then
        e = Error ''Insufficient SUI balance for transaction. Need at least 0.05 SUI for gas.''
      else
        list_all (\<lambda>(k', code). includes_str (message e) code = (k' = k)) abortCodes)"

text \<open>The message under which \<^verbatim>\<open>findTreasure\<close> throws an error of each kind.\<close>

definition specificMessage :: "TerminalKind \<Rightarrow> string" where
  "specificMessage k =
     (case k of
        AlreadyClaimed \<Rightarrow> ''This treasure has already been found by someone else!''
      | TooFar \<Rightarrow> ''Location verification failed. Make sure you are at the correct location.''
      | RankTooLow \<Rightarrow> ''Your hunter rank is too low for this treasure. Keep hunting to level up!''
      | InvalidTreasure \<Rightarrow> ''Invalid treasure ID. This treasure may not exist.''
      | InsufficientFunds \<Rightarrow>
          ''Insufficient SUI balance for transaction. Need at least 0.05 SUI for gas.'')"

text \<open>
  A wallet with 0.01 SUI; a wallet with 1 SUI whose cached registry and profile exist,
  on a ledger that mints; and the same wallet on a ledger that aborts the mint because
  the treasure is taken.
\<close>

definition readyWorld :: World where
  "readyWorld =
     \<lparr>service = \<lparr>keypair = Some ''0xa11ce'', treasureRegistryId = Some ''0xreg'',
                  hunterProfileId = Some ''0xprof'', isInitialized = True\<rparr>,
      storage = \<lparr>stored_treasure_registry_id = Some ''0xreg'',
                  stored_hunter_profile_id = Some ''0xprof'', stored_found_treasures = []\<rparr>,
      submitted = []\<rparr>"

definition mintResult :: TxResult where
  "mintResult =
     \<lparr>digest = ''D1'', effectsStatus = Some ''success'', effectsError = None,
      objectChanges = Some [\<lparr>changeType = ''mutated'', objectType = Some ''0xbe::treasure_nft::HunterProfile'',
                               objectId = Some ''0xprof''\<rparr>,
                            \<lparr>changeType = ''created'', objectType = Some ''0xbe::treasure_nft::TreasureNFT'',
                               objectId = Some ''0xnft1''\<rparr>],
      events = Some [''0xbe::treasure_nft::TreasureFoundEvent''], checkpoint = Some ''42''\<rparr>"

definition richRpc :: Rpc where
  "richRpc =
     \<lparr>wallet_keys = Inr ''0xa11ce'',
      getBalance_totalBalance = (\<lambda>owner. Some 1000000000),
      getObject_ok = (\<lambda>i. True),
      queryEvents_error = None,
      getOwnedObjects_first = (\<lambda>owner. Inr None),
      signAndExecuteTransaction = (\<lambda>tx. Inr mintResult),
      random_rarity = 2,
      clock_now = ''2024-06-01T12:00:00.000Z''\<rparr>"

definition poorRpc :: Rpc where
  "poorRpc = richRpc\<lparr>getBalance_totalBalance := (\<lambda>owner. Some 10000000)\<rparr>"

definition takenRpc :: Rpc where
  "takenRpc =
     richRpc\<lparr>signAndExecuteTransaction :=
       (\<lambda>tx. Inr (mintResult\<lparr>effectsStatus := Some ''failure'',
                    effectsError := Some ''MoveAbort in treasure_nft::find_treasure: E_TREASURE_ALREADY_FOUND'',
                    objectChanges := None\<rparr>))\<rparr>"

text \<open>
  The texts that the loop of \<^verbatim>\<open>processNFCTag\<close> can produce, in the order of the loop: the
  decodings of the payload without its first 0, 1, 2, 3, 4 and 5 bytes, where the decoder
  returns.
\<close>

definition rawDecodings :: "Runtime \<Rightarrow> nat list \<Rightarrow> string list" where
  "rawDecodings rt bytes =
     List.map_filter (\<lambda>skip. TextDecoder_decode rt (Uint8Array (drop skip bytes))) [0..<6]"

text \<open>
  An NFC text in the \<^verbatim>\<open>treasure_name\<close>/\<^verbatim>\<open>nfc_data\<close> format. It carries a rarity of 3, a
  required rank of 4 and 9999 reward points of its own. In \<^verbatim>\<open>nfc_data\<close> every quote is
  escaped: \<open>bq\<close> is a backslash and a quote.
\<close>

definition bq :: string where
  "bq = [CHR 0x5C, CHR 0x22]"

definition nfcText :: string where
  "nfcText =
     ''{\"treasure_name\":\"Gold\",\"nfc_data\":\"{'' @ bq @ ''id'' @ bq @ '':'' @ bq @ ''t1'' @ bq @
     '','' @ bq @ ''lat'' @ bq @ '':21.0285,'' @ bq @ ''lng'' @ bq @ '':105.8542,'' @ bq @ ''t'' @ bq @
     '':1700000000,'' @ bq @ ''h'' @ bq @ '':'' @ bq @ ''sig'' @ bq @
     ''}\",\"rarity\":3,\"requiredRank\":4,\"rewardPoints\":9999}''"

definition nfcClaim :: jsval where
  "nfcClaim =
     Obj [(''treasureId'', Str ''t1''),
          (''name'', Str ''Gold''),
          (''description'', Str ''Treasure discovered via NFC''),
          (''rarity'', Num (Finite 2)),
          (''coordinates'', Str ''21.0285,105.8542''),
          (''location'', Str ''Gold''),
          (''requiredRank'', Num (Finite 1)),
          (''rewardPoints'', Num (Finite 250)),
          (''createdAt'', Num (Finite 1700000000000)),
          (''signature'', Str ''sig'')]"

text \<open>
  Three tags with that text. The first is a text record as the NFC Forum defines it: the
  status byte 2, the language code \<^verbatim>\<open>en\<close>, the text. The second has the same three
  bytes of header, but its status byte announces a language code of five bytes, so that
  the standard decoding loses the first three characters of the text. The third holds
  the text alone, without a header.
\<close>

definition tagOf :: "nat list \<Rightarrow> NfcTag" where
  "tagOf bytes = \<lparr>ndefMessage = Some [\<lparr>payload = Some bytes\<rparr>]\<rparr>"

definition standardBytes :: "nat list" where
  "standardBytes = 2 # map of_char (''en'' @ nfcText)"

definition mislabelledBytes :: "nat list" where
  "mislabelledBytes = 5 # map of_char (''en'' @ nfcText)"

definition bareBytes :: "nat list" where
  "bareBytes = map of_char nfcText"

text \<open>
  The runtime of an installation in which the NFC library failed to load: \<^verbatim>\<open>Ndef\<close> is
  \<^verbatim>\<open>null\<close>, and \<^verbatim>\<open>Ndef.text.decodePayload\<close> throws a \<^verbatim>\<open>TypeError\<close>.
\<close>

definition noNdefRuntime :: Runtime where
  "noNdefRuntime =
     ref_runtime\<lparr>Ndef_text_decodePayload :=
       (\<lambda>bytes. Inl (TypeError ''Cannot read properties of null (reading text)''))\<rparr>"

text \<open>
  QR documents: one of version 2.0, one of an unknown type; and two values of
  \<^verbatim>\<open>TreasureNFCData\<close>, the second with \<^verbatim>\<open>NaN\<close> as its time of creation.
\<close>

definition qrVersion2 :: string where
  "qrVersion2 =
     ''{\"type\":\"treasure_hunt_qr\",\"version\":\"2.0\",\"data\":{\"treasureId\":\"t1\",\"rarity\":3}}''"

definition qrUnknownType :: string where
  "qrUnknownType =
     ''{\"type\":\"coupon\",\"version\":\"1.0\",\"data\":{\"treasureId\":\"t1\",\"rarity\":3}}''"

definition sampleTreasure :: TreasureNFCData where
  "sampleTreasure =
     \<lparr>treasureId = ''t1'', name = ''Gold \"bar\"'', description = ''A bar of gold'',
      rarity = Finite 3, coordinates = ''21.0285,105.8542'', location = ''Hanoi'',
      imageUrl = None, requiredRank = Finite 1, rewardPoints = Finite 250,
      createdAt = Finite 1700000000000, signature = Some ''sig''\<rparr>"

definition nanTreasure :: TreasureNFCData where
  "nanTreasure = sampleTreasure\<lparr>createdAt := NaN\<rparr>"

section \<open>Properties of the hunter slice\<close>

lemma incrementTreasuresFound_profile:
  "profile s = Some p \<Longrightarrow>
   profile (incrementTreasuresFound now s) =
     Some (p\<lparr>totalTreasuresFound := totalTreasuresFound p + 1,
             currentStreak := currentStreak p + 1,
             longestStreak := max (longestStreak p) (currentStreak p + 1),
             lastActiveAt := now,
             stats := (stats p)\<lparr>treasuresFoundToday := treasuresFoundToday (stats p) + 1,
                                treasuresFoundThisWeek := treasuresFoundThisWeek (stats p) + 1,
                                treasuresFoundThisMonth := treasuresFoundThisMonth (stats p) + 1\<rparr>\<rparr>)"
  by (simp add: incrementTreasuresFound_def Let_def max_def)

lemma fold_incrementTreasuresFound:
  "profile s = Some p \<Longrightarrow>
   \<exists>p'. profile (fold incrementTreasuresFound ts s) = Some p' \<and> rank p' = rank p \<and>
        level p' = level p \<and>
        totalTreasuresFound p' = totalTreasuresFound p + int (length ts)"
proof (induction ts arbitrary: s p)
  case Nil
  then show ?case by simp
next
  case (Cons t ts)
  from Cons.prems obtain q where q: "profile (incrementTreasuresFound t s) = Some q"
    "rank q = rank p" "level q = level p" "totalTreasuresFound q = totalTreasuresFound p + 1"
    by (simp add: incrementTreasuresFound_profile)
  from Cons.IH[OF q(1)] q(2-) show ?case by auto
qed

lemma rankForLevel_mono:
  "l \<le> l' \<Longrightarrow> rankIndex (rankForLevel l) \<le> rankIndex (rankForLevel l')"
  by (simp add: rankForLevel_def rankIndex_def)

lemma levelUpOnce_fields:
  "level (levelUpOnce p) = level p + 1"
  "rank (levelUpOnce p) = rankForLevel (level p + 1)"
  "totalTreasuresFound (levelUpOnce p) = totalTreasuresFound p"
  by (simp_all add: levelUpOnce_def Let_def)

lemma levelUpLoop_level: "level p \<le> level (levelUpLoop p)"
proof (induction p rule: levelUpLoop.induct)
  case (1 p)
  show ?case
  proof (cases "experience p \<ge> experienceToNext p")
    case True
    with 1 have "level (levelUpOnce p) \<le> level (levelUpLoop (levelUpOnce p))" by simp
    moreover have "levelUpLoop p = levelUpLoop (levelUpOnce p)"
      using True by (subst levelUpLoop.simps) simp
    ultimately show ?thesis by (simp add: levelUpOnce_fields)
  next
    case False
    then show ?thesis by (subst levelUpLoop.simps) simp
  qed
qed

lemma levelUpLoop_rank:
  "rank p = rankForLevel (level p) \<Longrightarrow>
   rank (levelUpLoop p) = rankForLevel (level (levelUpLoop p))"
proof (induction p rule: levelUpLoop.induct)
  case (1 p)
  show ?case
  proof (cases "experience p \<ge> experienceToNext p")
    case True
    have "rank (levelUpOnce p) = rankForLevel (level (levelUpOnce p))"
      by (simp add: levelUpOnce_fields)
    with 1 True
    have "rank (levelUpLoop (levelUpOnce p)) = rankForLevel (level (levelUpLoop (levelUpOnce p)))"
      by simp
    moreover have "levelUpLoop p = levelUpLoop (levelUpOnce p)"
      using True by (subst levelUpLoop.simps) simp
    ultimately show ?thesis by simp
  next
    case False
    then have "levelUpLoop p = p" by (subst levelUpLoop.simps) simp
    with 1 show ?thesis by simp
  qed
qed

lemma levelUpLoop_total: "totalTreasuresFound (levelUpLoop p) = totalTreasuresFound p"
proof (induction p rule: levelUpLoop.induct)
  case (1 p)
  show ?case
  proof (cases "experience p \<ge> experienceToNext p")
    case True
    with 1 have "totalTreasuresFound (levelUpLoop (levelUpOnce p)) = totalTreasuresFound (levelUpOnce p)"
      by simp
    moreover have "levelUpLoop p = levelUpLoop (levelUpOnce p)"
      using True by (subst levelUpLoop.simps) simp
    ultimately show ?thesis by (simp add: levelUpOnce_fields)
  next
    case False
    then show ?thesis by (subst levelUpLoop.simps) simp
  qed
qed

lemma toLowerCase_Beginner: "toLowerCase ''Beginner'' = ''beginner''"
  by code_simp

lemma toLowerCase_Explorer: "toLowerCase ''Explorer'' = ''explorer''"
  by code_simp

lemma toLowerCase_Hunter: "toLowerCase ''Hunter'' = ''hunter''"
  by code_simp

lemma getNextRankRequirement_Beginner:
  "getNextRankRequirement ''Beginner'' n = \<lparr>nextRank = ''Explorer'', treasuresNeeded = max 0 (5 - n)\<rparr>"
  unfolding getNextRankRequirement_def toLowerCase_Beginner Let_def by simp

lemma getNextRankRequirement_Explorer:
  "getNextRankRequirement ''Explorer'' n = \<lparr>nextRank = ''Hunter'', treasuresNeeded = max 0 (20 - n)\<rparr>"
  unfolding getNextRankRequirement_def toLowerCase_Explorer Let_def by simp

lemma getNextRankRequirement_Hunter:
  "getNextRankRequirement ''Hunter'' n = \<lparr>nextRank = ''Master'', treasuresNeeded = max 0 (50 - n)\<rparr>"
  unfolding getNextRankRequirement_def toLowerCase_Hunter Let_def by simp

text \<open>
  Claim C2, as the code has it. The rank is a monotonic function of the level, not of the
  number of treasures found: from a profile whose rank fits its level, \<^verbatim>\<open>addExperience\<close>
  never lowers the level and leaves the rank equal to \<open>rankForLevel\<close> of the new level
  (5 for Explorer, 10 for Adventurer, 15 for Expert, 20 for Master Hunter), so the rank
  never decreases. A settlement, \<^verbatim>\<open>incrementTreasuresFound\<close>, leaves rank and level as they
  are and adds one to the number of treasures found: after any sequence of settlements
  the rank is the rank before it. The thresholds 5, 20 and 50 on the number of treasures
  are those that \<^verbatim>\<open>getNextRankRequirement\<close> reports as still needed.
\<close>

theorem rank_function_of_level:
  assumes "profile s = Some p" and "rank p = rankForLevel (level p)"
  shows "(\<exists>p'. profile (fold incrementTreasuresFound ts s) = Some p' \<and>
               rank p' = rank p \<and> level p' = level p \<and>
               totalTreasuresFound p' = totalTreasuresFound p + int (length ts)) \<and>
         (\<exists>p'. profile (addExperience amount s) = Some p' \<and>
               rank p' = rankForLevel (level p') \<and> level p \<le> level p' \<and>
               rankIndex (rank p) \<le> rankIndex (rank p') \<and>
               totalTreasuresFound p' = totalTreasuresFound p) \<and>
         (\<forall>l l'. l \<le> l' \<longrightarrow> rankIndex (rankForLevel l) \<le> rankIndex (rankForLevel l')) \<and>
         treasuresNeeded (getNextRankRequirement ''Beginner'' n) = max 0 (5 - n) \<and>
         treasuresNeeded (getNextRankRequirement ''Explorer'' n) = max 0 (20 - n) \<and>
         treasuresNeeded (getNextRankRequirement ''Hunter'' n) = max 0 (50 - n)"
proof -
  let ?q = "levelUpLoop (p\<lparr>experience := experience p + amount\<rparr>)"
  have q: "profile (addExperience amount s) = Some ?q"
    using assms(1) by (simp add: addExperience_def)
  have r: "rank ?q = rankForLevel (level ?q)"
    using assms(2) by (intro levelUpLoop_rank) simp
  have l: "level p \<le> level ?q"
    using levelUpLoop_level[of "p\<lparr>experience := experience p + amount\<rparr>"] by simp
  have m: "rankIndex (rank p) \<le> rankIndex (rank ?q)"
    using rankForLevel_mono[OF l] r assms(2) by simp
  have t: "totalTreasuresFound ?q = totalTreasuresFound p"
    by (simp add: levelUpLoop_total)
  show ?thesis
    using fold_incrementTreasuresFound[OF assms(1), of ts] q r l m t rankForLevel_mono
    by (simp add: getNextRankRequirement_Beginner getNextRankRequirement_Explorer
          getNextRankRequirement_Hunter)
qed

theorem rank_function_of_level_witness:
  "profile hunter4 \<noteq> None \<and>
   rank (the (profile hunter4)) = rankForLevel (level (the (profile hunter4))) \<and>
   (\<exists>p'. profile (fold incrementTreasuresFound [''2024-06-01T12:00:00.000Z''] hunter4) = Some p' \<and>
         rank p' = Beginner \<and> totalTreasuresFound p' = 5) \<and>
   (\<exists>p'. profile (addExperience 1000 hunter4) = Some p' \<and> rank p' = rankForLevel (level p') \<and>
         1 \<le> level p')"
proof -
  define p0 where "p0 = the (profile hunter4)"
  have p: "profile hunter4 = Some p0"
    by (simp add: p0_def hunter4_def)
  have f: "rank p0 = Beginner" "level p0 = 1" "totalTreasuresFound p0 = 4"
    by (simp_all add: p0_def hunter4_def)
  have r: "rank p0 = rankForLevel (level p0)"
    by (simp add: f rankForLevel_def)
  have g: "the (profile hunter4) = p0"
    by (simp add: p0_def)
  from rank_function_of_level[OF p r, of "[''2024-06-01T12:00:00.000Z'']" 1000 0]
  show ?thesis unfolding g using p r f by auto
qed

text \<open>
  Claim C2 as stated fails: the hunter with four treasures finds a fifth and is still a
  Beginner, where the specification's function of five treasures is Explorer.
\<close>

theorem rank_not_function_of_treasures_counterexample:
  "map_option totalTreasuresFound
     (profile (incrementTreasuresFound ''2024-06-01T12:00:00.000Z'' hunter4)) = Some 5 \<and>
   map_option (rankName \<circ> rank)
     (profile (incrementTreasuresFound ''2024-06-01T12:00:00.000Z'' hunter4)) = Some ''Beginner'' \<and>
   specRankName 5 = ''Explorer''"
  by (simp add: hunter4_def incrementTreasuresFound_def Let_def rankName_def specRankName_def)

text \<open>
  Claim C5, as the code has it. On a settlement the profile update adds exactly one to
  \<^verbatim>\<open>totalTreasuresFound\<close> and one to each of the day, week and month counters, adds one to
  \<^verbatim>\<open>currentStreak\<close> whatever the time of the last activity, raises \<^verbatim>\<open>longestStreak\<close> to the
  new streak when that is larger, and sets \<^verbatim>\<open>lastActiveAt\<close> to the current time. It
  leaves rank, level and experience as they are. The streak is reset by a separate
  action, \<^verbatim>\<open>resetStreak\<close>, which sets it to 0 and changes nothing else.
\<close>

theorem settlement_profile_update:
  assumes "profile s = Some p"
  shows "profile (incrementTreasuresFound now s) =
           Some (p\<lparr>totalTreasuresFound := totalTreasuresFound p + 1,
                   currentStreak := currentStreak p + 1,
                   longestStreak := max (longestStreak p) (currentStreak p + 1),
                   lastActiveAt := now,
                   stats := (stats p)\<lparr>treasuresFoundToday := treasuresFoundToday (stats p) + 1,
                                      treasuresFoundThisWeek := treasuresFoundThisWeek (stats p) + 1,
                                      treasuresFoundThisMonth := treasuresFoundThisMonth (stats p) + 1\<rparr>\<rparr>) \<and>
         profile (resetStreak s) = Some (p\<lparr>currentStreak := 0\<rparr>)"
  using assms by (simp add: incrementTreasuresFound_profile resetStreak_def)

theorem settlement_profile_update_witness:
  "profile hunter4 \<noteq> None \<and>
   map_option currentStreak (profile (incrementTreasuresFound ''2024-06-01T12:00:00.000Z'' hunter4)) = Some 8 \<and>
   map_option lastActiveAt (profile (incrementTreasuresFound ''2024-06-01T12:00:00.000Z'' hunter4)) =
     Some ''2024-06-01T12:00:00.000Z'' \<and>
   map_option currentStreak (profile (resetStreak hunter4)) = Some 0"
proof -
  define p0 where "p0 = the (profile hunter4)"
  have p: "profile hunter4 = Some p0"
    by (simp add: p0_def hunter4_def)
  have f: "currentStreak p0 = 7"
    by (simp add: p0_def hunter4_def)
  from settlement_profile_update[OF p, of "''2024-06-01T12:00:00.000Z''"] p f
  show ?thesis by simp
qed

text \<open>
  Claim C5 as stated fails: a hunter last active in January 2020 settles a discovery in
  June 2024, years outside any streak window, and the streak goes from 7 to 8 instead of
  being reset to 1; the rank stays Beginner although five treasures are found.
\<close>

theorem streak_not_reset_counterexample:
  "map_option lastActiveAt (profile hunter4) = Some ''2020-01-02T00:00:00.000Z'' \<and>
   map_option currentStreak
     (profile (incrementTreasuresFound ''2024-06-01T12:00:00.000Z'' hunter4)) = Some 8 \<and>
   map_option currentStreak
     (profile (incrementTreasuresFound ''2024-06-01T12:00:00.000Z'' hunter4)) \<noteq> Some 1"
  by (simp add: hunter4_def incrementTreasuresFound_def Let_def)
section \<open>Properties of the proximity gate\<close>








section \<open>Properties of the ledger service\<close>





lemma findTreasureBody_insufficient:
  "getBalanceInSui rpc address < 0.05 \<Longrightarrow>
   findTreasureBody rpc address tid lp w =
     (Inl (Error ''Insufficient SUI balance for transaction. Need at least 0.05 SUI for gas.''), w)"
  by (simp add: findTreasureBody_def Let_def)




lemma rethrowSpecific_insufficient:
  "rethrowSpecific (Error ''Insufficient SUI balance for transaction. Need at least 0.05 SUI for gas.'') =
     Error ''Insufficient SUI balance for transaction. Need at least 0.05 SUI for gas.''"
  by code_simp

lemma ensureWallet_readyWorld: "ensureWallet rpc readyWorld = (Inr ''0xa11ce'', readyWorld)"
  by (simp add: ensureWallet_def readyWorld_def)

lemma poorRpc_balance: "getBalanceInSui poorRpc ''0xa11ce'' < 0.05"
  by (simp add: getBalanceInSui_def getBalance_def poorRpc_def richRpc_def MIST_PER_SUI_def)

lemma takenRpc_body:
  "fst (findTreasureBody takenRpc ''0xa11ce'' ''t1'' ''proof'' readyWorld) =
     Inl (Error ''Transaction failed: MoveAbort in treasure_nft::find_treasure: E_TREASURE_ALREADY_FOUND'')"
  by (simp add: readyWorld_def takenRpc_def richRpc_def findTreasureBody_def getBalanceInSui_def
        getBalance_def MIST_PER_SUI_def findTreasureRegistry_def findOrCreateHunterProfile_def
        mintResult_def Let_def)



lemma rethrowSpecific_kind:
  assumes "raisedAs k e"
  shows "rethrowSpecific e = Error (specificMessage k)"
proof (cases "k = InsufficientFunds")
  case True
  with assms show ?thesis
    by (simp add: raisedAs_def rethrowSpecific_insufficient specificMessage_def)
next
  case False
  with assms show ?thesis
    by (cases k) (simp_all add: raisedAs_def abortCodes_def rethrowSpecific_def specificMessage_def)
qed

lemma specificMessage_inj: "specificMessage k = specificMessage k' \<Longrightarrow> k = k'"
  by (cases k; cases k') (simp_all add: specificMessage_def)

text \<open>
  Claim C8. When two calls of \<^verbatim>\<open>findTreasure\<close> fail with errors of two different
  terminal kinds (too far, already claimed, rank too low, invalid treasure, insufficient
  funds), each call throws the message of its own kind, and the two errors differ.
\<close>

theorem terminal_errors_distinct:
  assumes "ensureWallet rpc1 w1 = (Inr a1, v1)"
      and "fst (findTreasureBody rpc1 a1 tid1 lp1 v1) = Inl e1"
      and "raisedAs k1 e1"
      and "ensureWallet rpc2 w2 = (Inr a2, v2)"
      and "fst (findTreasureBody rpc2 a2 tid2 lp2 v2) = Inl e2"
      and "raisedAs k2 e2"
      and "k1 \<noteq> k2"
  shows "fst (findTreasure rpc1 tid1 lp1 w1) = Inl (Error (specificMessage k1)) \<and>
         fst (findTreasure rpc2 tid2 lp2 w2) = Inl (Error (specificMessage k2)) \<and>
         fst (findTreasure rpc1 tid1 lp1 w1) \<noteq> fst (findTreasure rpc2 tid2 lp2 w2)"
proof -
  have "fst (findTreasure rpc1 tid1 lp1 w1) = Inl (rethrowSpecific e1)"
    using assms(1,2) by (cases "findTreasureBody rpc1 a1 tid1 lp1 v1") (simp add: findTreasure_def)
  then have 1: "fst (findTreasure rpc1 tid1 lp1 w1) = Inl (Error (specificMessage k1))"
    by (simp add: rethrowSpecific_kind[OF assms(3)])
  have "fst (findTreasure rpc2 tid2 lp2 w2) = Inl (rethrowSpecific e2)"
    using assms(4,5) by (cases "findTreasureBody rpc2 a2 tid2 lp2 v2") (simp add: findTreasure_def)
  then have 2: "fst (findTreasure rpc2 tid2 lp2 w2) = Inl (Error (specificMessage k2))"
    by (simp add: rethrowSpecific_kind[OF assms(6)])
  from assms(7) have "specificMessage k1 \<noteq> specificMessage k2"
    using specificMessage_inj by blast
  with 1 2 show ?thesis by simp
qed

lemma raisedAs_taken:
  "raisedAs AlreadyClaimed
     (Error ''Transaction failed: MoveAbort in treasure_nft::find_treasure: E_TREASURE_ALREADY_FOUND'')"
  by code_simp

lemma raisedAs_insufficient:
  "raisedAs InsufficientFunds
     (Error ''Insufficient SUI balance for transaction. Need at least 0.05 SUI for gas.'')"
  by (simp add: raisedAs_def)

lemma poorRpc_body:
  "fst (findTreasureBody poorRpc ''0xa11ce'' ''t1'' ''proof'' readyWorld) =
     Inl (Error ''Insufficient SUI balance for transaction. Need at least 0.05 SUI for gas.'')"
  by (simp add: findTreasureBody_insufficient[OF poorRpc_balance])

theorem terminal_errors_distinct_witness:
  "fst (findTreasure poorRpc ''t1'' ''proof'' readyWorld) =
     Inl (Error ''Insufficient SUI balance for transaction. Need at least 0.05 SUI for gas.'') \<and>
   fst (findTreasure takenRpc ''t1'' ''proof'' readyWorld) =
     Inl (Error ''This treasure has already been found by someone else!'') \<and>
   fst (findTreasure poorRpc ''t1'' ''proof'' readyWorld) \<noteq>
     fst (findTreasure takenRpc ''t1'' ''proof'' readyWorld)"
proof -
  have k: "InsufficientFunds \<noteq> AlreadyClaimed" by simp
  from terminal_errors_distinct[OF ensureWallet_readyWorld poorRpc_body raisedAs_insufficient
         ensureWallet_readyWorld takenRpc_body raisedAs_taken k]
  show ?thesis by (simp add: specificMessage_def)
qed
section \<open>Properties of the NFC and QR decoders\<close>

lemma decodeWithSkips_find:
  "skip \<le> 6 \<Longrightarrow>
   decodeWithSkips rt bytes skip =
     find (\<lambda>d. includes_str d ''treasure_name'' \<or> includes_str d ''{'')
       (List.map_filter (\<lambda>k. TextDecoder_decode rt (Uint8Array (drop k bytes))) [skip..<6])"
proof (induction rt bytes skip rule: decodeWithSkips.induct)
  case (1 rt bytes skip)
  show ?case
  proof (cases "skip \<le> 5")
    case False
    with "1.prems" have "skip = 6" by simp
    then show ?thesis by (subst decodeWithSkips.simps) (simp add: List.map_filter_simps)
  next
    case True
    then have u: "[skip..<6] = skip # [skip + 1..<6]" by (simp add: upt_rec)
    from True have le: "skip + 1 \<le> 6" by simp
    show ?thesis
    proof (cases "TextDecoder_decode rt (Uint8Array (drop skip bytes))")
      case None
      from "1.IH"(1)[OF True None le] True None show ?thesis
        by (subst decodeWithSkips.simps) (simp add: u List.map_filter_simps)
    next
      case (Some decoded)
      show ?thesis
      proof (cases "includes_str decoded ''treasure_name'' \<or> includes_str decoded ''{''")
        case True
        with \<open>skip \<le> 5\<close> Some show ?thesis
          by (subst decodeWithSkips.simps) (simp add: u List.map_filter_simps)
      next
        case False
        from "1.IH"(2)[OF \<open>skip \<le> 5\<close> Some False le] \<open>skip \<le> 5\<close> Some False show ?thesis
          by (subst decodeWithSkips.simps) (simp add: u List.map_filter_simps)
      qed
    qed
  qed
qed

lemma processNFCTagWith_decoded:
  assumes "ndefMessage tag = Some (r # rs)" and "payload r = Some bytes"
      and "Ndef_text_decodePayload rt (Uint8Array bytes) = Inr s"
  shows "processNFCTagWith parse rt tag = parse rt s"
  using assms by (simp add: processNFCTagWith_def)

lemma processNFCTagWith_fallback:
  assumes "ndefMessage tag = Some (r # rs)" and "payload r = Some bytes"
      and "Ndef_text_decodePayload rt (Uint8Array bytes) = Inl e"
  shows "processNFCTagWith parse rt tag =
           (case find (\<lambda>d. includes_str d ''treasure_name'' \<or> includes_str d ''{'')
                   (rawDecodings rt bytes) of
              None \<Rightarrow> Inl (Error ''Failed to decode NFC payload'')
            | Some s \<Rightarrow> parse rt s)"
  using assms decodeWithSkips_find[of 0 rt bytes]
  by (simp add: processNFCTagWith_def rawDecodings_def)

text \<open>
  Claim C3, as the code has it. \<^verbatim>\<open>processNFCTag\<close> first applies the standard text-record
  decoding. When that returns a text, the text is parsed and the result of the parse,
  success or error, is the result: no other strategy is tried. Only when the standard
  decoding throws does the decoder turn to the raw decodings without the first 0, 1, 2,
  3, 4 and 5 bytes, in this order, and takes the first that contains \<^verbatim>\<open>treasure_name\<close> or
  an opening brace; that text is parsed and the result of the parse is the result. When
  no raw decoding contains either, the error is \<^verbatim>\<open>Failed to decode NFC payload\<close>.
\<close>

theorem nfc_decode_order:
  assumes "ndefMessage tag = Some (r # rs)" and "payload r = Some bytes"
  shows "(\<forall>s. Ndef_text_decodePayload rt (Uint8Array bytes) = Inr s \<longrightarrow>
            NFCService_processNFCTag rt tag = NFCService_parseTreasureFromPayload rt s \<and>
            AlternativeNFCService_processNFCTag rt tag =
              AlternativeNFCService_parseTreasureFromPayload rt s) \<and>
         (\<forall>e. Ndef_text_decodePayload rt (Uint8Array bytes) = Inl e \<longrightarrow>
            NFCService_processNFCTag rt tag =
              (case find (\<lambda>d. includes_str d ''treasure_name'' \<or> includes_str d ''{'')
                      (rawDecodings rt bytes) of
                 None \<Rightarrow> Inl (Error ''Failed to decode NFC payload'')
               | Some s \<Rightarrow> NFCService_parseTreasureFromPayload rt s) \<and>
            AlternativeNFCService_processNFCTag rt tag =
              (case find (\<lambda>d. includes_str d ''treasure_name'' \<or> includes_str d ''{'')
                      (rawDecodings rt bytes) of
                 None \<Rightarrow> Inl (Error ''Failed to decode NFC payload'')
               | Some s \<Rightarrow> AlternativeNFCService_parseTreasureFromPayload rt s))"
  unfolding NFCService_processNFCTag_def AlternativeNFCService_processNFCTag_def
  using processNFCTagWith_decoded[OF assms] processNFCTagWith_fallback[OF assms]
  by blast

lemma tagOf_fields:
  "ndefMessage (tagOf bytes) = Some (\<lparr>payload = Some bytes\<rparr> # [])"
  "payload \<lparr>payload = Some bytes\<rparr> = Some bytes"
  by (simp_all add: tagOf_def)

lemma standard_decoding: "Ndef_text_decodePayload ref_runtime (Uint8Array standardBytes) = Inr nfcText"
  by code_simp

lemma nfcText_parses: "NFCService_parseTreasureFromPayload ref_runtime nfcText = Inr nfcClaim"
  by code_simp

lemma nfcText_parses_alt: "AlternativeNFCService_parseTreasureFromPayload ref_runtime nfcText = Inr nfcClaim"
  by code_simp

lemma noNdef_throws:
  "Ndef_text_decodePayload noNdefRuntime (Uint8Array standardBytes) =
     Inl (TypeError ''Cannot read properties of null (reading text)'')"
  by (simp add: noNdefRuntime_def)

lemma noNdef_first_raw:
  "find (\<lambda>d. includes_str d ''treasure_name'' \<or> includes_str d ''{'')
     (rawDecodings noNdefRuntime standardBytes) = Some (CHR 0x02 # CHR ''e'' # CHR ''n'' # nfcText)"
  by code_simp

lemma noNdef_parse:
  "NFCService_parseTreasureFromPayload noNdefRuntime (CHR 0x02 # CHR ''e'' # CHR ''n'' # nfcText) =
     Inl (Error ''Failed to parse treasure format: SyntaxError: Unexpected token in JSON'')"
  by code_simp

text \<open>
  On a standard text record the standard decoding gives the text and the claim is read.
  Where the NFC library is missing, the same tag is read raw from its first byte, header
  included, because that decoding already contains a brace; its parse fails and the
  failure is the result, although the decoding without three bytes is the text.
\<close>

theorem nfc_decode_order_witness:
  "Ndef_text_decodePayload ref_runtime (Uint8Array standardBytes) = Inr nfcText \<and>
   NFCService_processNFCTag ref_runtime (tagOf standardBytes) = Inr nfcClaim \<and>
   AlternativeNFCService_processNFCTag ref_runtime (tagOf standardBytes) = Inr nfcClaim \<and>
   Ndef_text_decodePayload noNdefRuntime (Uint8Array standardBytes) =
     Inl (TypeError ''Cannot read properties of null (reading text)'') \<and>
   NFCService_processNFCTag noNdefRuntime (tagOf standardBytes) =
     Inl (Error ''Failed to parse treasure format: SyntaxError: Unexpected token in JSON'')"
proof -
  note a = nfc_decode_order[OF tagOf_fields, of ref_runtime standardBytes]
  note b = nfc_decode_order[OF tagOf_fields, of noNdefRuntime standardBytes]
  from a standard_decoding
  have 1: "NFCService_processNFCTag ref_runtime (tagOf standardBytes) = Inr nfcClaim"
    "AlternativeNFCService_processNFCTag ref_runtime (tagOf standardBytes) = Inr nfcClaim"
    by (simp_all add: nfcText_parses nfcText_parses_alt)
  from b noNdef_throws
  have 2: "NFCService_processNFCTag noNdefRuntime (tagOf standardBytes) =
             Inl (Error ''Failed to parse treasure format: SyntaxError: Unexpected token in JSON'')"
    by (simp add: noNdef_first_raw noNdef_parse)
  from 1 2 standard_decoding noNdef_throws show ?thesis by simp
qed

lemma mislabelled_standard:
  "Ndef_text_decodePayload ref_runtime (Uint8Array mislabelledBytes) = Inr (drop 3 nfcText)"
  by code_simp

lemma mislabelled_unparseable: "JSON_parse ref_runtime (drop 3 nfcText) = None"
  by code_simp

lemma mislabelled_skip3:
  "TextDecoder_decode ref_runtime (Uint8Array (drop 3 mislabelledBytes)) = Some nfcText"
  by code_simp

lemma mislabelled_result:
  "NFCService_processNFCTag ref_runtime (tagOf mislabelledBytes) =
     Inl (Error ''Unrecognized payload format'')"
  by code_simp

lemma mislabelled_result_alt:
  "AlternativeNFCService_processNFCTag ref_runtime (tagOf mislabelledBytes) =
     Inl (Error ''Unrecognized payload format'')"
  by code_simp

text \<open>
  Claim C3 as stated fails. The tag is written with three bytes of header before the
  text, and its status byte announces a language code of five bytes. The standard
  decoding returns the text without its first three characters, which is no JSON; the
  raw decoding without three bytes is the text, which parses to the claim. Both services
  return the error of the failed first strategy instead of falling through to the second.
\<close>

theorem nfc_no_fall_through_counterexample:
  "Ndef_text_decodePayload ref_runtime (Uint8Array mislabelledBytes) = Inr (drop 3 nfcText) \<and>
   JSON_parse ref_runtime (drop 3 nfcText) = None \<and>
   TextDecoder_decode ref_runtime (Uint8Array (drop 3 mislabelledBytes)) = Some nfcText \<and>
   NFCService_parseTreasureFromPayload ref_runtime nfcText = Inr nfcClaim \<and>
   NFCService_processNFCTag ref_runtime (tagOf mislabelledBytes) =
     Inl (Error ''Unrecognized payload format'') \<and>
   AlternativeNFCService_processNFCTag ref_runtime (tagOf mislabelledBytes) =
     Inl (Error ''Unrecognized payload format'')"
  using mislabelled_standard mislabelled_unparseable mislabelled_skip3 nfcText_parses
    mislabelled_result mislabelled_result_alt
  by simp
lemma parseQRDataBody_Inr:
  "(parseQRDataBody rt s = Inr d) =
     (\<exists>parsed. JSON_parse rt s = Some parsed \<and>
        getField parsed ''type'' = Str ''treasure_hunt_qr'' \<and>
        truthy (getField parsed ''data'') \<and> d = getField parsed ''data'')"
proof (cases "JSON_parse rt s")
  case None
  then show ?thesis by (simp add: parseQRDataBody_def parseJSON_def)
next
  case (Some parsed)
  show ?thesis
  proof (cases "parsed = Null \<or> parsed = Undefined")
    case True
    with Some show ?thesis
      by (auto simp: parseQRDataBody_def parseJSON_def getProp_def)
  next
    case False
    with Some show ?thesis
      by (auto simp: parseQRDataBody_def parseJSON_def getProp_def)
  qed
qed

lemma parseQRData_Inr: "(parseQRData rt s = Inr d) = (parseQRDataBody rt s = Inr d)"
  by (simp add: parseQRData_def split: sum.splits)

lemma parseQRData_Inl:
  "parseQRData rt s = Inl e \<Longrightarrow> \<exists>m. e = Error (''Invalid QR data: '' @ m)"
  by (auto simp: parseQRData_def split: sum.splits)

lemma parseQRData_unknown_type:
  assumes "JSON_parse rt s = Some parsed" and "parsed \<noteq> Null" and "parsed \<noteq> Undefined"
      and "getField parsed ''type'' \<noteq> Str ''treasure_hunt_qr''"
  shows "parseQRData rt s = Inl (Error ''Invalid QR data: Invalid QR treasure data format'')"
  using assms by (simp add: parseQRData_def parseQRDataBody_def parseJSON_def getProp_def)

text \<open>
  Claim C6, as the code has it. \<^verbatim>\<open>parseQRData\<close> treats the payload as one JSON document
  and returns its \<^verbatim>\<open>data\<close> exactly when the document parses, its \<^verbatim>\<open>type\<close> is
  \<^verbatim>\<open>treasure_hunt_qr\<close> and its \<^verbatim>\<open>data\<close> is truthy; the \<^verbatim>\<open>version\<close> is not looked at. Every
  failure is an \<^verbatim>\<open>Error\<close> whose message starts with \<^verbatim>\<open>Invalid QR data: \<close>, and a document
  of another type fails with \<^verbatim>\<open>Invalid QR data: Invalid QR treasure data format\<close>.
\<close>

theorem qr_decode_checks_type_and_data:
  "(parseQRData rt s = Inr d) =
     (\<exists>parsed. JSON_parse rt s = Some parsed \<and>
        getField parsed ''type'' = Str ''treasure_hunt_qr'' \<and>
        truthy (getField parsed ''data'') \<and> d = getField parsed ''data'') \<and>
   (\<forall>e. parseQRData rt s = Inl e \<longrightarrow> (\<exists>m. e = Error (''Invalid QR data: '' @ m))) \<and>
   (\<forall>parsed. JSON_parse rt s = Some parsed \<and> parsed \<noteq> Null \<and> parsed \<noteq> Undefined \<and>
        getField parsed ''type'' \<noteq> Str ''treasure_hunt_qr'' \<longrightarrow>
      parseQRData rt s = Inl (Error ''Invalid QR data: Invalid QR treasure data format''))"
  using parseQRDataBody_Inr[of rt s d] parseQRData_Inr[of rt s d] parseQRData_Inl[of rt s]
    parseQRData_unknown_type[of rt s]
  by blast

lemma qrUnknownType_parsed:
  "JSON_parse ref_runtime qrUnknownType =
     Some (Obj [(''type'', Str ''coupon''), (''version'', Str ''1.0''),
                (''data'', Obj [(''treasureId'', Str ''t1''), (''rarity'', Num (Finite 3))])])"
  by code_simp

text \<open>A document of type \<^verbatim>\<open>coupon\<close> is refused.\<close>

theorem qr_decode_checks_type_and_data_witness:
  "JSON_parse ref_runtime qrUnknownType =
     Some (Obj [(''type'', Str ''coupon''), (''version'', Str ''1.0''),
                (''data'', Obj [(''treasureId'', Str ''t1''), (''rarity'', Num (Finite 3))])]) \<and>
   parseQRData ref_runtime qrUnknownType =
     Inl (Error ''Invalid QR data: Invalid QR treasure data format'') \<and>
   (\<exists>m. Error ''Invalid QR data: Invalid QR treasure data format'' = Error (''Invalid QR data: '' @ m))"
proof -
  note t = qr_decode_checks_type_and_data[of ref_runtime qrUnknownType Null]
  from t qrUnknownType_parsed
  have 1: "parseQRData ref_runtime qrUnknownType =
             Inl (Error ''Invalid QR data: Invalid QR treasure data format'')"
    by simp
  with t have "\<exists>m. Error ''Invalid QR data: Invalid QR treasure data format'' = Error (''Invalid QR data: '' @ m)"
    by blast
  with 1 qrUnknownType_parsed show ?thesis by blast
qed

lemma qrVersion2_parsed:
  "JSON_parse ref_runtime qrVersion2 =
     Some (Obj [(''type'', Str ''treasure_hunt_qr''), (''version'', Str ''2.0''),
                (''data'', Obj [(''treasureId'', Str ''t1''), (''rarity'', Num (Finite 3))])])"
  by code_simp

lemma qrVersion2_accepted:
  "parseQRData ref_runtime qrVersion2 =
     Inr (Obj [(''treasureId'', Str ''t1''), (''rarity'', Num (Finite 3))])"
  by code_simp

text \<open>
  Claim C6 as stated fails: a document of version 2.0, which \<^verbatim>\<open>generateQRData\<close> never
  writes, is decoded without an error.
\<close>

theorem qr_version_unchecked_counterexample:
  "JSON_parse ref_runtime qrVersion2 =
     Some (Obj [(''type'', Str ''treasure_hunt_qr''), (''version'', Str ''2.0''),
                (''data'', Obj [(''treasureId'', Str ''t1''), (''rarity'', Num (Finite 3))])]) \<and>
   parseQRData ref_runtime qrVersion2 =
     Inr (Obj [(''treasureId'', Str ''t1''), (''rarity'', Num (Finite 3))])"
  using qrVersion2_parsed qrVersion2_accepted by simp


lemma sampleTreasure_document:
  "JSON_stringify ref_runtime (qrPayload sampleTreasure) =
     ''{\"type\":\"treasure_hunt_qr\",\"version\":\"1.0\",\"data\":{\"treasureId\":\"t1\",\"name\":\"Gold '' @
     bq @ ''bar'' @ bq @ ''\",\"description\":\"A bar of gold\",\"rarity\":3,'' @
     ''\"coordinates\":\"21.0285,105.8542\",\"location\":\"Hanoi\",\"requiredRank\":1,'' @
     ''\"rewardPoints\":250,\"createdAt\":1700000000000,\"signature\":\"sig\"}}''"
  by code_simp



lemma nanTreasure_document:
  "generateQRData ref_runtime nanTreasure =
     ''{\"type\":\"treasure_hunt_qr\",\"version\":\"1.0\",\"data\":{\"treasureId\":\"t1\",\"name\":\"Gold '' @
     bq @ ''bar'' @ bq @ ''\",\"description\":\"A bar of gold\",\"rarity\":3,'' @
     ''\"coordinates\":\"21.0285,105.8542\",\"location\":\"Hanoi\",\"requiredRank\":1,'' @
     ''\"rewardPoints\":250,\"createdAt\":null,\"signature\":\"sig\"}}''"
  by code_simp




lemma nfcFormatBranch_fixed:
  assumes "nfcFormatBranch rt s = Inr c"
  shows "getField c ''rarity'' = Num (Finite 2) \<and>
         getField c ''requiredRank'' = Num (Finite 1) \<and>
         getField c ''rewardPoints'' = Num (Finite 250)"
  using assms
  by (auto simp: nfcFormatBranch_def parseNfcFormat_def split: sum.splits)

text \<open>
  Claim C10. A payload that contains \<^verbatim>\<open>treasure_name\<close> and \<^verbatim>\<open>nfc_data\<close> and that either
  service parses successfully gives a claim of rarity 2, required rank 1 and 250 reward
  points, whatever the payload says.
\<close>

theorem nfc_claim_fixed_metadata:
  assumes "includes_str s ''treasure_name''" and "includes_str s ''nfc_data''"
      and "NFCService_parseTreasureFromPayload rt s = Inr c \<or>
           AlternativeNFCService_parseTreasureFromPayload rt s = Inr c"
  shows "getField c ''rarity'' = Num (Finite 2) \<and>
         getField c ''requiredRank'' = Num (Finite 1) \<and>
         getField c ''rewardPoints'' = Num (Finite 250)"
proof -
  from assms have "nfcFormatBranch rt s = Inr c"
    by (auto simp: NFCService_parseTreasureFromPayload_def
          AlternativeNFCService_parseTreasureFromPayload_def)
  then show ?thesis by (rule nfcFormatBranch_fixed)
qed

lemma nfcText_markers: "includes_str nfcText ''treasure_name''" "includes_str nfcText ''nfc_data''"
  by code_simp+

lemma nfcText_carries:
  "map_option (\<lambda>v. (getField v ''rarity'', getField v ''requiredRank'', getField v ''rewardPoints''))
     (JSON_parse ref_runtime nfcText) =
   Some (Num (Finite 3), Num (Finite 4), Num (Finite 9999))"
  by code_simp

text \<open>
  The text carries a rarity of 3, a required rank of 4 and 9999 reward points; the claim
  has 2, 1 and 250.
\<close>

theorem nfc_claim_fixed_metadata_witness:
  "includes_str nfcText ''treasure_name'' \<and> includes_str nfcText ''nfc_data'' \<and>
   map_option (\<lambda>v. (getField v ''rarity'', getField v ''requiredRank'', getField v ''rewardPoints''))
     (JSON_parse ref_runtime nfcText) =
   Some (Num (Finite 3), Num (Finite 4), Num (Finite 9999)) \<and>
   NFCService_parseTreasureFromPayload ref_runtime nfcText = Inr nfcClaim \<and>
   getField nfcClaim ''rarity'' = Num (Finite 2) \<and>
   getField nfcClaim ''requiredRank'' = Num (Finite 1) \<and>
   getField nfcClaim ''rewardPoints'' = Num (Finite 250)"
  using nfc_claim_fixed_metadata[OF nfcText_markers disjI1[OF nfcText_parses]]
    nfcText_markers nfcText_carries nfcText_parses
  by simp

end
